theory Spec2Isabelle
  imports Main "HOL-Library.Sublist"
begin

text \<open>
  A model of the voice-to-code server: the code generation agent of
  \<open>src/agents/codeGen.ts\<close> (validation of the YAML prompt, the registry of generation
  sessions) and the relay server listed behind it in the same file (extraction of the
  YAML specification from the assistant's text, approval detection, the conversation
  phases).
\<close>

section \<open>JavaScript strings\<close>

text \<open>
  A JavaScript string is a sequence of UTF-16 code units. The model is \<^typ>\<open>string\<close>, a
  list of 8-bit characters, read as the code units below 256 (ASCII and Latin-1): every
  marker, key and phrase of the program lies in that range. \<open>String.prototype.includes\<close>
  is the contiguous-sublist test of the library.
\<close>

definition includes_str :: "string \<Rightarrow> string \<Rightarrow> bool" where
  "includes_str s p = sublist p s"

text \<open>
  \<open>String.prototype.trim\<close> strips white space and line terminators from both ends. Below
  code unit 256 these are TAB, LF, VT, FF, CR, SPACE and NBSP.
\<close>

definition isWhiteSpace :: "char \<Rightarrow> bool" where
  "isWhiteSpace c = (c = CHR 0x09 \<or> c = CHR 0x0A \<or> c = CHR 0x0B \<or> c = CHR 0x0C
     \<or> c = CHR 0x0D \<or> c = CHR 0x20 \<or> c = CHR 0xA0)"

definition trim :: "string \<Rightarrow> string" where
  "trim s = rev (dropWhile isWhiteSpace (rev (dropWhile isWhiteSpace s)))"

text \<open>
  \<open>String.prototype.toLowerCase\<close>: below code unit 256 the letters with a lower-case form
  are A-Z and the Latin-1 capitals 0xC0-0xDE without the multiplication sign 0xD7; each
  maps to the code unit 32 above it.
\<close>

definition toLowerChar :: "char \<Rightarrow> char" where
  "toLowerChar c =
     (let n = (of_char c :: nat)
      in if (65 \<le> n \<and> n \<le> 90) \<or> (192 \<le> n \<and> n \<le> 222 \<and> n \<noteq> 215)
         then char_of (n + 32) else c)"

definition toLowerCase :: "string \<Rightarrow> string" where
  "toLowerCase s = map toLowerChar s"

section \<open>The code generation agent: validation of the YAML prompt\<close>

record validation =
  isValid :: bool
  errors :: "string list"
  processed :: "string option"

text \<open>
  \<open>validateYamlPrompt\<close> pushes one message per missing field and appends the default
  style line. Its \<open>try\<close> block calls nothing that throws, so the \<open>catch\<close> branch has no
  counterpart here.
\<close>

definition validateYamlPrompt :: "string \<Rightarrow> validation" where
  "validateYamlPrompt yamlText =
     (let errors0 = [];
          errors1 = (if \<not> includes_str yamlText ''project_name:''
                     then errors0 @ [''Missing required field: project_name''] else errors0);
          errors2 = (if \<not> includes_str yamlText ''features:''
                     then errors1 @ [''Missing required field: features''] else errors1);
          errors3 = (if \<not> includes_str yamlText ''tech_stack:''
                     then errors2 @ [''Missing required field: tech_stack''] else errors2);
          processed0 = (if \<not> includes_str yamlText ''ui_style:''
                        then yamlText @ ''\<newline>ui_style: Clean and modern'' else yamlText)
      in \<lparr> isValid = (length errors3 = 0),
           errors = errors3,
           processed = (if length errors3 = 0 then Some processed0 else None) \<rparr>)"

section \<open>The relay server: the Extraction Engine\<close>

text \<open>
  The four regular expressions of \<open>extractYamlFromText\<close> are modelled by what
  \<open>text.match\<close> returns as capture group 1. \<open>splitAtFirst p s\<close> cuts \<open>s\<close> around the
  leftmost occurrence of \<open>p\<close>.
\<close>

fun splitAtFirst :: "string \<Rightarrow> string \<Rightarrow> (string \<times> string) option" where
  "splitAtFirst p [] = (if p = [] then Some ([], []) else None)"
| "splitAtFirst p (c # cs) =
     (if prefix p (c # cs) then Some ([], drop (length p) (c # cs))
      else (case splitAtFirst p cs of
              None \<Rightarrow> None
            | Some (before, after) \<Rightarrow> Some (c # before, after)))"

text \<open>
  A pattern \<open>/opn([\s\S]*?)cls/\<close> with literal \<open>opn\<close> and \<open>cls\<close>: the match starts at the
  leftmost \<open>opn\<close> (if that one has no \<open>cls\<close> behind it, no later one has), and the lazy
  group stops at the first \<open>cls\<close> behind it.
\<close>

definition fenced :: "string \<Rightarrow> string \<Rightarrow> string \<Rightarrow> string option" where
  "fenced opn cls text =
     (case splitAtFirst opn text of
        None \<Rightarrow> None
      | Some (before, rest) \<Rightarrow>
          (case splitAtFirst cls rest of
             None \<Rightarrow> None
           | Some (inner, after) \<Rightarrow> Some inner))"

text \<open>
  The pattern \<open>/yaml\n([\s\S]*?)$/m\<close>: with the \<open>m\<close> flag \<open>$\<close> holds at the end of the
  text and before a line terminator (LF and CR below code unit 256), so the lazy group is
  the rest of the line behind the leftmost \<open>yaml\n\<close>.
\<close>

definition isLineTerminator :: "char \<Rightarrow> bool" where
  "isLineTerminator c = (c = CHR 0x0A \<or> c = CHR 0x0D)"

definition tagToEndOfLine :: "string \<Rightarrow> string option" where
  "tagToEndOfLine text =
     (case splitAtFirst ''yaml\<newline>'' text of
        None \<Rightarrow> None
      | Some (before, rest) \<Rightarrow> Some (takeWhile (\<lambda>c. \<not> isLineTerminator c) rest))"

definition patterns :: "(string \<Rightarrow> string option) list" where
  "patterns =
     [fenced ''```yaml\<newline>'' ''\<newline>```'',
      fenced ''```yaml'' ''```'',
      fenced ''```\<newline>'' ''\<newline>```'',
      tagToEndOfLine]"

definition hasAllFields :: "string \<Rightarrow> bool" where
  "hasAllFields yamlContent =
     (includes_str yamlContent ''project_name:''
      \<and> includes_str yamlContent ''project_description:''
      \<and> includes_str yamlContent ''users:''
      \<and> includes_str yamlContent ''goal:''
      \<and> includes_str yamlContent ''features:''
      \<and> includes_str yamlContent ''tech_stack:''
      \<and> includes_str yamlContent ''ui_style:'')"

text \<open>
  The loop over the patterns: a pattern counts when it matches with a non-empty group
  (\<open>match && match[1]\<close>); its trimmed group is returned when it has all seven keys,
  otherwise the next pattern is tried.
\<close>

fun tryPatterns :: "(string \<Rightarrow> string option) list \<Rightarrow> string \<Rightarrow> string option" where
  "tryPatterns [] text = None"
| "tryPatterns (pattern # rest) text =
     (case pattern text of
        None \<Rightarrow> tryPatterns rest text
      | Some group1 \<Rightarrow>
          (if group1 \<noteq> [] then
             (let yamlContent = trim group1
              in if hasAllFields yamlContent then Some yamlContent
                 else tryPatterns rest text)
           else tryPatterns rest text))"

text \<open>\<open>text.split('\n')\<close>, \<open>Array.prototype.join\<close> and \<open>Array.prototype.slice\<close>.\<close>

fun splitNewline :: "string \<Rightarrow> string list" where
  "splitNewline [] = [[]]"
| "splitNewline (c # cs) =
     (if c = CHR 0x0A then [] # splitNewline cs
      else (case splitNewline cs of
              [] \<Rightarrow> [[c]]
            | l # ls \<Rightarrow> (c # l) # ls))"

fun join :: "string \<Rightarrow> string list \<Rightarrow> string" where
  "join sep [] = []"
| "join sep [l] = l"
| "join sep (l # m # ls) = l @ sep @ join sep (m # ls)"

definition slice :: "'a list \<Rightarrow> int \<Rightarrow> int \<Rightarrow> 'a list" where
  "slice xs start end =
     (let len = int (length xs);
          k = (if start < 0 then max (len + start) 0 else min start len);
          final = (if end < 0 then max (len + end) 0 else min end len)
      in take (nat (final - k)) (drop (nat k) xs))"

text \<open>
  The fallback scan. \<open>findYamlEnd\<close> is the inner loop over \<open>j\<close>, returning \<open>-1\<close> when it
  runs off the end; \<open>scanLines\<close> is the outer loop over \<open>i\<close>, returning
  \<open>(yamlStart, yamlEnd)\<close> with \<open>-1\<close> for what was not found.
\<close>

function findYamlEnd :: "string list \<Rightarrow> nat \<Rightarrow> int" where
  "findYamlEnd lines j =
     (if j < length lines then
        (if trim (lines ! j) = [] \<or> includes_str (lines ! j) ''How does that''
            \<or> includes_str (lines ! j) ''```''
         then int j
         else findYamlEnd lines (j + 1))
      else - 1)"
  by pat_completeness auto
termination
  by (relation "measure (\<lambda>(lines, j). length lines - j)") auto

function scanLines :: "string list \<Rightarrow> nat \<Rightarrow> int \<Rightarrow> int \<times> int" where
  "scanLines lines i yamlStart =
     (if i < length lines then
        (let yamlStart' =
               (if includes_str (lines ! i) ''project_name:'' \<and> yamlStart = - 1
                then int i else yamlStart)
         in if yamlStart' \<noteq> - 1
               \<and> (includes_str (lines ! i) ''ui_style:''
                  \<or> includes_str (lines ! i) ''tech_stack:'')
            then (yamlStart',
                  (let yamlEnd = findYamlEnd lines i
                   in if yamlEnd = - 1 then int (length lines) else yamlEnd))
            else scanLines lines (i + 1) yamlStart')
      else (yamlStart, - 1))"
  by pat_completeness auto
termination
  by (relation "measure (\<lambda>(lines, i, yamlStart). length lines - i)") auto

definition fallbackScan :: "string \<Rightarrow> string option" where
  "fallbackScan text =
     (if includes_str text ''project_name:'' \<and> includes_str text ''features:''
         \<and> includes_str text ''tech_stack:'' \<and> includes_str text ''users:''
         \<and> includes_str text ''goal:''
      then (let lines = splitNewline text;
                (yamlStart, yamlEnd) = scanLines lines 0 (- 1)
            in if yamlStart \<noteq> - 1 \<and> yamlEnd \<noteq> - 1
               then Some (trim (join ''\<newline>'' (slice lines yamlStart yamlEnd)))
               else None)
      else None)"

definition extractYamlFromText :: "string \<Rightarrow> string option" where
  "extractYamlFromText text =
     (case tryPatterns patterns text of
        Some yamlContent \<Rightarrow> Some yamlContent
      | None \<Rightarrow> fallbackScan text)"

section \<open>The relay server: the Approval Detector\<close>

definition approvalPhrases :: "string list" where
  "approvalPhrases =
     [''looks good'', ''that looks good'', ''yes'', ''perfect'', ''great'', ''awesome'',
      ''i like that'', ''that works'', ''let's build'', ''let's go'', ''ready'',
      ''is ready'', ''it's ready'', ''the prompt is ready'', ''prompt is ready'',
      ''approved'', ''correct'', ''that's right'', ''sounds good'', ''good to go'',
      ''let's do it'', ''let's start'', ''move on'', ''next step'', ''continue'',
      ''proceed'']"

text \<open>The loop over the phrases returns at the first phrase the message includes.\<close>

fun includesAny :: "string \<Rightarrow> string list \<Rightarrow> bool" where
  "includesAny message [] = False"
| "includesAny message (phrase # rest) =
     (if includes_str message phrase then True else includesAny message rest)"

definition detectYamlApproval :: "string \<Rightarrow> bool" where
  "detectYamlApproval userMessage =
     (let lowerMessage = trim (toLowerCase userMessage)
      in includesAny lowerMessage approvalPhrases)"

text \<open>
  For the statement that a message contains a phrase regardless of letter case: some
  piece of the message has the phrase as its lower-case form.
\<close>

definition occursIgnoringCase :: "string \<Rightarrow> string \<Rightarrow> bool" where
  "occursIgnoringCase p m = (\<exists>a x b. m = a @ x @ b \<and> toLowerCase x = p)"

section \<open>The code generation agent: the Generation Session Manager\<close>

datatype sessionStatus = Starting | Generating | Building | Ready | Error | Cancelled

text \<open>
  A \<open>GenerationSession\<close> is an object: the registry and the local variable \<open>session\<close> of
  \<open>startCodeGeneration\<close> hold references to it. Objects live in a store from addresses to
  sessions. \<open>cancelFn\<close> is a closure; the model gives it an identifier and records its
  invocations.
\<close>

record GenerationSession =
  status :: sessionStatus
  startTime :: int
  yamlPrompt :: "string option"
  previewUrl :: "string option"
  repoPath :: "string option"
  cancelFn :: "nat option"

text \<open>
  The state the module works on: the store of session objects, the \<open>Map\<close>
  \<open>activeGenerations\<close> (keys in insertion order, each key once), the session identifiers
  whose directory \<open>generated/<sessionId>\<close> exists on disk (distinct identifiers are taken to
  name distinct directories), the invocations of cancellation handles, and the clock
  \<open>Date.now()\<close> in milliseconds.
\<close>

record codegenState =
  heap :: "nat \<Rightarrow> GenerationSession"
  nextAddr :: nat
  activeGenerations :: "(string \<times> nat) list"
  generatedDirs :: "string set"
  cancelCalls :: "nat list"
  now :: int

text \<open>\<open>Map.prototype.get\<close>, \<open>set\<close> and \<open>delete\<close> on the list of entries.\<close>

fun Map_get :: "'k \<Rightarrow> ('k \<times> 'v) list \<Rightarrow> 'v option" where
  "Map_get k [] = None"
| "Map_get k ((k', v) # m) = (if k' = k then Some v else Map_get k m)"

fun Map_set :: "'k \<Rightarrow> 'v \<Rightarrow> ('k \<times> 'v) list \<Rightarrow> ('k \<times> 'v) list" where
  "Map_set k v [] = [(k, v)]"
| "Map_set k v ((k', v') # m) = (if k' = k then (k, v) # m else (k', v') # Map_set k v m)"

fun Map_delete :: "'k \<Rightarrow> ('k \<times> 'v) list \<Rightarrow> ('k \<times> 'v) list" where
  "Map_delete k [] = []"
| "Map_delete k ((k', v) # m) = (if k' = k then Map_delete k m else (k', v) # Map_delete k m)"

text \<open>
  What goes over the WebSocket to the browser, as the object given to \<open>JSON.stringify\<close>:
  the events of \<open>emitEvent\<close> (type, session identifier, further data; the \<open>timestamp\<close> field
  is left out), the text messages and the phase transition message of the relay.
\<close>

datatype jsval = JStr string | JNum int

datatype wsMessage =
    Event string string "(string \<times> jsval) list"
  | TextMessage string string
  | PhaseTransition string string

datatype readyState = CONNECTING | OPEN | CLOSING | CLOSED

record socket =
  readyState :: readyState
  sent :: "wsMessage list"

definition emitEvent :: "socket \<Rightarrow> string \<Rightarrow> string \<Rightarrow> (string \<times> jsval) list \<Rightarrow> socket" where
  "emitEvent browserWs etype sessionId data =
     (if readyState browserWs = OPEN
      then browserWs\<lparr> sent := sent browserWs @ [Event etype sessionId data] \<rparr>
      else browserWs)"

text \<open>
  \<open>cleanupSession\<close>: the directory of the session is removed when it exists. This is the
  function when \<open>fs.rmSync\<close> succeeds, as it is taken to do in \<open>cancelCodeGeneration\<close> and in
  \<open>cleanupStaleGenerations\<close>. In \<open>startCodeGeneration\<close>, where what is thrown is at stake,
  the removal can fail: see \<open>cleanupSessionOrThrow\<close>.
\<close>

definition cleanupSession :: "string \<Rightarrow> codegenState \<Rightarrow> codegenState" where
  "cleanupSession sessionId w =
     (if sessionId \<in> generatedDirs w
      then w\<lparr> generatedDirs := generatedDirs w - {sessionId} \<rparr>
      else w)"

definition setStatus :: "nat \<Rightarrow> sessionStatus \<Rightarrow> codegenState \<Rightarrow> codegenState" where
  "setStatus a s w = w\<lparr> heap := (heap w)(a := (heap w a)\<lparr> status := s \<rparr>) \<rparr>"

definition cancelCodeGeneration ::
  "string \<Rightarrow> socket \<Rightarrow> codegenState \<Rightarrow> bool \<times> socket \<times> codegenState" where
  "cancelCodeGeneration sessionId browserWs0 w =
     (case Map_get sessionId (activeGenerations w) of
        None \<Rightarrow> (False, browserWs0, w)
      | Some a \<Rightarrow>
          (let w1 = setStatus a Cancelled w;
               w2 = (case cancelFn (heap w1 a) of
                       None \<Rightarrow> w1
                     | Some f \<Rightarrow> w1\<lparr> cancelCalls := cancelCalls w1 @ [f] \<rparr>);
               ws1 = emitEvent browserWs0 ''codegen-cancelled'' sessionId [];
               w3 = cleanupSession sessionId w2;
               w4 = w3\<lparr> activeGenerations := Map_delete sessionId (activeGenerations w3) \<rparr>
           in (True, ws1, w4)))"

definition getGenerationStatus :: "string \<Rightarrow> codegenState \<Rightarrow> GenerationSession option" where
  "getGenerationStatus sessionId w =
     (case Map_get sessionId (activeGenerations w) of
        None \<Rightarrow> None
      | Some a \<Rightarrow> Some (heap w a))"

text \<open>
  \<open>new Date(value)\<close> for a whole number of milliseconds: beyond 8.64e15 milliseconds on
  either side of the epoch the time value is \<open>NaN\<close>, an Invalid Date (\<open>None\<close>). A comparison
  \<open>d < cutoff\<close> of a valid Date with an Invalid Date is false.
\<close>

definition newDate :: "int \<Rightarrow> int option" where
  "newDate v = (if \<bar>v\<bar> \<le> 8640000000000000 then Some v else None)"

definition dateBefore :: "int \<Rightarrow> int option \<Rightarrow> bool" where
  "dateBefore t cutoff = (case cutoff of None \<Rightarrow> False | Some c \<Rightarrow> t < c)"

text \<open>
  \<open>cleanupStaleGenerations\<close>. \<open>maxAgeMinutes\<close> is a whole number of minutes; numbers with a
  fraction and \<open>NaN\<close> are not modelled. With the clock in the range of \<open>Date\<close>, the
  arithmetic of the code on doubles agrees with the integer arithmetic here: it is exact
  whenever the cutoff is a valid time value, and gives an Invalid Date otherwise. The start
  time of a session is a valid Date. The loop runs over the entries of the \<open>Map\<close>; deleting
  the entry just visited does not disturb the iteration.
\<close>

fun sweepEntries ::
  "int option \<Rightarrow> (string \<times> nat) list \<Rightarrow> codegenState \<Rightarrow> nat \<Rightarrow> nat \<times> codegenState" where
  "sweepEntries cutoff [] w cleaned = (cleaned, w)"
| "sweepEntries cutoff ((sessionId, a) # entries) w cleaned =
     (if dateBefore (startTime (heap w a)) cutoff \<and> status (heap w a) \<noteq> Ready
      then (let w1 = cleanupSession sessionId w;
                w2 = w1\<lparr> activeGenerations := Map_delete sessionId (activeGenerations w1) \<rparr>
            in sweepEntries cutoff entries w2 (cleaned + 1))
      else sweepEntries cutoff entries w cleaned)"

definition cleanupStaleGenerations :: "int \<Rightarrow> codegenState \<Rightarrow> nat \<times> codegenState" where
  "cleanupStaleGenerations maxAgeMinutes w =
     (let cutoff = newDate (now w - maxAgeMinutes * 60 * 1000)
      in sweepEntries cutoff (activeGenerations w) w 0)"

text \<open>
  The external collaborator \<open>runOpenAICodegen\<close> is not part of the module, and
  \<open>startCodeGeneration\<close> is suspended while it awaits it. What happens during the await is
  given as a sequence of steps, in the order of the event loop: time passes, the
  collaborator creates the directory of the session, the collaborator invokes one of the
  four callbacks, another task calls \<open>cancelCodeGeneration\<close> (with the same browser
  socket) or \<open>cleanupStaleGenerations\<close>, or another task does anything else to the socket
  and to the state of the module (a call of \<open>startCodeGeneration\<close> for another
  conversation, for instance). A run consists of these steps, of how the collaborator ends
  (it resolves with \<open>previewUrl\<close> and \<open>repoPath\<close>, or rejects), and of what \<open>fs.rmSync\<close>
  throws, if it throws, when the \<open>catch\<close> block removes the directory. A thrown value is an
  \<open>Error\<close> with a message, or something else.
\<close>

datatype thrown = ErrorObject string | OtherValue

datatype callback = onLog string | onFileTree string | onPreviewReady string | onError string

datatype awaitStep =
    Wait int
  | CreateDir
  | Callback callback
  | CancelCall string
  | SweepCall int
  | OtherTask "socket \<times> codegenState \<Rightarrow> socket \<times> codegenState"

record codegenRun =
  steps :: "awaitStep list"
  outcome :: "thrown + (string \<times> string)"
  removalError :: "thrown option"

datatype codegenResult = Success string | Failure string

text \<open>The four callbacks \<open>startCodeGeneration\<close> hands to the collaborator.\<close>

fun runCallback :: "nat \<Rightarrow> string \<Rightarrow> socket \<times> codegenState \<Rightarrow> callback \<Rightarrow> socket \<times> codegenState" where
  "runCallback a sessionId (ws, w) (onLog chunk) =
     (emitEvent ws ''codegen-log'' sessionId [(''chunk'', JStr chunk)], w)"
| "runCallback a sessionId (ws, w) (onFileTree tree) =
     (emitEvent ws ''codegen-file-tree'' sessionId [(''tree'', JStr tree)], w)"
| "runCallback a sessionId (ws, w) (onPreviewReady url) =
     (let w1 = setStatus a Ready w;
          w2 = w1\<lparr> heap := (heap w1)(a := (heap w1 a)\<lparr> previewUrl := Some url \<rparr>) \<rparr>
      in (emitEvent ws ''codegen-preview-ready'' sessionId [(''url'', JStr url)], w2))"
| "runCallback a sessionId (ws, w) (onError message) =
     (let w1 = setStatus a Error w
      in (emitEvent ws ''codegen-error'' sessionId [(''error'', JStr message)], w1))"

text \<open>One step of the await, for the session object at address \<open>a\<close>.\<close>

fun runStep :: "nat \<Rightarrow> string \<Rightarrow> socket \<times> codegenState \<Rightarrow> awaitStep \<Rightarrow> socket \<times> codegenState" where
  "runStep a sessionId (ws, w) (Wait d) = (ws, w\<lparr> now := now w + d \<rparr>)"
| "runStep a sessionId (ws, w) CreateDir =
     (ws, w\<lparr> generatedDirs := insert sessionId (generatedDirs w) \<rparr>)"
| "runStep a sessionId (ws, w) (Callback cb) = runCallback a sessionId (ws, w) cb"
| "runStep a sessionId (ws, w) (CancelCall otherId) =
     (case cancelCodeGeneration otherId ws w of (cancelled, ws1, w1) \<Rightarrow> (ws1, w1))"
| "runStep a sessionId (ws, w) (SweepCall maxAgeMinutes) =
     (ws, snd (cleanupStaleGenerations maxAgeMinutes w))"
| "runStep a sessionId (ws, w) (OtherTask f) = f (ws, w)"

text \<open>
  The first statements of \<open>startCodeGeneration\<close>: a new session object in status
  \<open>starting\<close> is stored in the registry under the session identifier.
\<close>

definition registerSession :: "string \<Rightarrow> string \<Rightarrow> codegenState \<Rightarrow> nat \<times> codegenState" where
  "registerSession yamlPrompt0 sessionId w =
     (let a = nextAddr w;
          session = \<lparr> status = Starting, startTime = now w, yamlPrompt = Some yamlPrompt0,
                      previewUrl = None, repoPath = None, cancelFn = None \<rparr>
      in (a, w\<lparr> heap := (heap w)(a := session),
                nextAddr := a + 1,
                activeGenerations := Map_set sessionId a (activeGenerations w) \<rparr>))"

text \<open>\<open>error instanceof Error ? error.message : 'Unknown error occurred'\<close>.\<close>

definition thrownMessage :: "thrown \<Rightarrow> string" where
  "thrownMessage err =
     (case err of ErrorObject m \<Rightarrow> m | OtherValue \<Rightarrow> ''Unknown error occurred'')"

text \<open>
  \<open>cleanupSession\<close> as the \<open>catch\<close> block calls it, outside any \<open>try\<close>: when the directory
  exists and \<open>fs.rmSync\<close> throws, the call throws.
\<close>

definition cleanupSessionOrThrow ::
  "thrown option \<Rightarrow> string \<Rightarrow> codegenState \<Rightarrow> thrown + codegenState" where
  "cleanupSessionOrThrow rmError sessionId w =
     (if sessionId \<in> generatedDirs w
      then (case rmError of
              Some e \<Rightarrow> Inl e
            | None \<Rightarrow> Inr (cleanupSession sessionId w))
      else Inr w)"

text \<open>
  The \<open>catch\<close> block of \<open>startCodeGeneration\<close>. What the cleanup throws leaves the block, and
  the function; the registry entry is then not deleted.
\<close>

definition catchBlock ::
  "nat \<Rightarrow> string \<Rightarrow> thrown \<Rightarrow> thrown option \<Rightarrow> socket \<Rightarrow> codegenState
   \<Rightarrow> (thrown + codegenResult) \<times> socket \<times> codegenState" where
  "catchBlock a sessionId err rmError ws w =
     (let w1 = setStatus a Error w;
          errorMessage = thrownMessage err;
          ws1 = emitEvent ws ''codegen-error'' sessionId
                  [(''error'', JStr errorMessage),
                   (''duration'', JNum (now w1 - startTime (heap w1 a)))]
      in case cleanupSessionOrThrow rmError sessionId w1 of
           Inl e \<Rightarrow> (Inl e, ws1, w1)
         | Inr w2 \<Rightarrow>
             (Inr (Failure errorMessage), ws1,
              w2\<lparr> activeGenerations := Map_delete sessionId (activeGenerations w2) \<rparr>))"

text \<open>
  The \<open>try\<close> block: validation, then the awaited call of the collaborator, during which the
  steps of the run take place. The result is \<open>Inl\<close> the thrown value or \<open>Inr\<close> the returned
  object.
\<close>

definition tryBlock ::
  "nat \<Rightarrow> string \<Rightarrow> string \<Rightarrow> codegenRun \<Rightarrow> socket \<Rightarrow> codegenState
   \<Rightarrow> (thrown + codegenResult) \<times> socket \<times> codegenState" where
  "tryBlock a yamlPrompt0 sessionId run ws w =
     (let validation = validateYamlPrompt yamlPrompt0
      in if \<not> isValid validation
         then (Inl (ErrorObject (''YAML validation failed: '' @ join '', '' (errors validation))),
               ws, w)
         else
           (let w1 = setStatus a Generating w;
                ws1 = emitEvent ws ''codegen-validation-passed'' sessionId [];
                (ws2, w3) = foldl (runStep a sessionId) (ws1, w1) (steps run)
            in case outcome run of
                 Inl err \<Rightarrow> (Inl err, ws2, w3)
               | Inr (resultPreviewUrl, resultRepoPath) \<Rightarrow>
                   (let w4 = w3\<lparr> heap := (heap w3)(a := (heap w3 a)\<lparr> repoPath := Some resultRepoPath \<rparr>) \<rparr>;
                        ws3 = emitEvent ws2 ''codegen-complete'' sessionId
                                [(''previewUrl'', JStr resultPreviewUrl),
                                 (''repoPath'', JStr resultRepoPath),
                                 (''duration'', JNum (now w4 - startTime (heap w4 a)))]
                    in (Inr (Success resultPreviewUrl), ws3, w4))))"

text \<open>
  \<open>startCodeGeneration\<close>. The caller passes \<open>browserWs!\<close>, which is \<open>null\<close> at run time when
  no browser is connected: the first \<open>emitEvent\<close>, outside the \<open>try\<close>, then throws a
  \<open>TypeError\<close> past the function, after the session was registered. The result is
  \<open>Inl\<close> what the function throws or \<open>Inr\<close> what it returns.
\<close>

definition startCodeGeneration ::
  "string \<Rightarrow> string \<Rightarrow> socket option \<Rightarrow> codegenRun \<Rightarrow> codegenState
   \<Rightarrow> (thrown + codegenResult) \<times> socket option \<times> codegenState" where
  "startCodeGeneration yamlPrompt0 sessionId browserWs0 run w =
     (let (a, w1) = registerSession yamlPrompt0 sessionId w
      in case browserWs0 of
           None \<Rightarrow>
             (Inl (ErrorObject ''Cannot read properties of null (reading 'readyState')''),
              None, w1)
         | Some ws \<Rightarrow>
             (let ws1 = emitEvent ws ''codegen-start'' sessionId
                          [(''yamlPrompt'', JStr yamlPrompt0)]
              in case tryBlock a yamlPrompt0 sessionId run ws1 w1 of
                   (Inr result, ws2, w2) \<Rightarrow> (Inr result, Some ws2, w2)
                 | (Inl err, ws2, w2) \<Rightarrow>
                     (case catchBlock a sessionId err (removalError run) ws2 w2 of
                        (result, ws3, w3) \<Rightarrow> (result, Some ws3, w3))))"

section \<open>The relay server: conversation state, Stream Buffer and phase transitions\<close>

datatype phase = ideation | prompt_review | transitioning | code_generation

record ConversationState =
  phase :: phase
  lastYamlPrompt :: "string option"
  sessionId :: "string option"
  yamlBuffer :: "string option"

text \<open>An optional string in a condition: \<open>undefined\<close> and the empty string are falsy.\<close>

fun truthy :: "string option \<Rightarrow> bool" where
  "truthy None = False"
| "truthy (Some s) = (s \<noteq> [])"

text \<open>
  The statements that follow every call of \<open>extractYamlFromText\<close> in the handler:
  \<open>if (yamlContent) { lastYamlPrompt = yamlContent; phase = 'prompt_review' }\<close>.
\<close>

definition acceptExtraction :: "string option \<Rightarrow> ConversationState \<Rightarrow> ConversationState" where
  "acceptExtraction yamlContent cs =
     (if truthy yamlContent
      then cs\<lparr> lastYamlPrompt := yamlContent, phase := prompt_review \<rparr>
      else cs)"

definition movingOnPhrases :: "string list" where
  "movingOnPhrases =
     [''would you like to edit'', ''is it ready'', ''starting code generation'', ''great!'',
      ''perfect!'', ''let me know'', ''you're welcome'', ''if you're ready'']"

definition isMovingOn :: "string \<Rightarrow> bool" where
  "isMovingOn content0 = list_ex (\<lambda>phrase. includes_str (toLowerCase content0) phrase) movingOnPhrases"

text \<open>
  The Stream Buffer: the block of the handler that tracks the YAML prompt in the text of
  an assistant message.
\<close>

definition trackYamlPrompt :: "string \<Rightarrow> ConversationState \<Rightarrow> ConversationState" where
  "trackYamlPrompt content0 cs =
     (if includes_str content0 ''```yaml'' then cs\<lparr> yamlBuffer := Some content0 \<rparr>
      else if truthy (yamlBuffer cs) \<and> includes_str content0 ''```'' then
        (case yamlBuffer cs of
           None \<Rightarrow> cs
         | Some buffer \<Rightarrow>
             (let cs1 = cs\<lparr> yamlBuffer := Some (buffer @ ''\<newline>'' @ content0) \<rparr>;
                  cs2 = acceptExtraction (extractYamlFromText (buffer @ ''\<newline>'' @ content0)) cs1
              in cs2\<lparr> yamlBuffer := None \<rparr>))
      else if truthy (yamlBuffer cs) then
        (case yamlBuffer cs of
           None \<Rightarrow> cs
         | Some buffer \<Rightarrow>
             (let cs1 = cs\<lparr> yamlBuffer := Some (buffer @ ''\<newline>'' @ content0) \<rparr>
              in if isMovingOn content0
                 then (let cs2 = acceptExtraction
                                   (extractYamlFromText (buffer @ ''\<newline>'' @ content0)) cs1
                       in cs2\<lparr> yamlBuffer := None \<rparr>)
                 else cs1))
      else acceptExtraction (extractYamlFromText content0) cs)"

text \<open>
  The relay's test for YAML in an assistant message. Under the \<open>m\<close> flag \<open>^\<close> holds at the
  start of the text and behind every line terminator; \<open>lineStarts\<close> lists the text from
  each such position on. \<open>/^\s*-\s+/m\<close> asks for white space, a dash and white space there,
  \<open>/^\s*\w+:\s*.*$/m\<close> for white space, a word and a colon (its tail matches anything).
\<close>

fun afterTerminators :: "string \<Rightarrow> string list" where
  "afterTerminators [] = []"
| "afterTerminators (c # cs) =
     (if isLineTerminator c then cs # afterTerminators cs else afterTerminators cs)"

definition lineStarts :: "string \<Rightarrow> string list" where
  "lineStarts s = s # afterTerminators s"

definition isWordChar :: "char \<Rightarrow> bool" where
  "isWordChar c =
     (let n = (of_char c :: nat)
      in (48 \<le> n \<and> n \<le> 57) \<or> (65 \<le> n \<and> n \<le> 90) \<or> n = 95 \<or> (97 \<le> n \<and> n \<le> 122))"

definition matchesListItem :: "string \<Rightarrow> bool" where
  "matchesListItem text =
     list_ex (\<lambda>s. case dropWhile isWhiteSpace s of
                     c # d # rest \<Rightarrow> c = CHR ''-'' \<and> isWhiteSpace d
                   | _ \<Rightarrow> False)
       (lineStarts text)"

definition matchesKeyValue :: "string \<Rightarrow> bool" where
  "matchesKeyValue text =
     list_ex (\<lambda>s. let r = dropWhile isWhiteSpace s
                  in takeWhile isWordChar r \<noteq> []
                     \<and> (case dropWhile isWordChar r of
                          c # rest \<Rightarrow> c = CHR '':''
                        | [] \<Rightarrow> False))
       (lineStarts text)"

definition hasYamlContent :: "string \<Rightarrow> bool" where
  "hasYamlContent content0 =
     (includes_str content0 ''```yaml'' \<or> includes_str content0 ''project_name:''
      \<or> includes_str content0 ''tech_stack:'' \<or> includes_str content0 ''features:''
      \<or> includes_str content0 ''users:'' \<or> includes_str content0 ''ui_style:''
      \<or> includes_str content0 ''goal:'' \<or> includes_str content0 ''project_description:''
      \<or> matchesListItem content0 \<or> matchesKeyValue content0)"

text \<open>
  The state of the server process the handler works on: the conversation state, the
  browser connection \<open>browserWs\<close> (\<open>null\<close> when no browser is connected) and the state of
  the code generation module.
\<close>

record server =
  conversationState :: ConversationState
  browserWs :: "socket option"
  codegen :: codegenState

text \<open>\<open>if (browserWs?.readyState === WebSocket.OPEN) browserWs.send(JSON.stringify(m))\<close>.\<close>

definition sendIfOpen :: "socket option \<Rightarrow> wsMessage \<Rightarrow> socket option" where
  "sendIfOpen ws0 m =
     (case ws0 of
        None \<Rightarrow> None
      | Some ws \<Rightarrow> (if readyState ws = OPEN then Some (ws\<lparr> sent := sent ws @ [m] \<rparr>) else Some ws))"

record conversationText =
  role :: string
  content :: string

definition forwardConversationText :: "conversationText \<Rightarrow> server \<Rightarrow> server" where
  "forwardConversationText message sv =
     (if role message = ''assistant'' then
        (if hasYamlContent (content message) then sv
         else sv\<lparr> browserWs := sendIfOpen (browserWs sv)
                                  (TextMessage (role message) (content message)) \<rparr>)
      else sv\<lparr> browserWs := sendIfOpen (browserWs sv)
                               (TextMessage (role message) (content message)) \<rparr>)"

text \<open>
  The approval branch up to the call of \<open>startCodeGeneration\<close>: the phase is set to
  \<open>transitioning\<close>, the session identifier that \<open>generateSessionId\<close> returned is stored, the
  browser is told, and the phase is set to \<open>code_generation\<close>. \<open>generateSessionId\<close> reads the
  clock and \<open>Math.random\<close>; the identifier it returns is a parameter of the model.
\<close>

definition beginGeneration :: "string \<Rightarrow> server \<Rightarrow> server" where
  "beginGeneration newSessionId sv =
     (let sv1 = sv\<lparr> conversationState := (conversationState sv)\<lparr> phase := transitioning \<rparr> \<rparr>;
          sv2 = sv1\<lparr> conversationState := (conversationState sv1)\<lparr> sessionId := Some newSessionId \<rparr> \<rparr>;
          sv3 = sv2\<lparr> browserWs := sendIfOpen (browserWs sv2)
                                      (PhaseTransition ''code_generation'' newSessionId) \<rparr>
      in sv3\<lparr> conversationState := (conversationState sv3)\<lparr> phase := code_generation \<rparr> \<rparr>)"

definition resetToIdeation :: "server \<Rightarrow> server" where
  "resetToIdeation sv =
     sv\<lparr> conversationState :=
           (conversationState sv)\<lparr> phase := ideation, lastYamlPrompt := None, sessionId := None \<rparr> \<rparr>"

definition correctiveMessage :: wsMessage where
  "correctiveMessage =
     TextMessage ''system'' ''Please generate the complete YAML first before proceeding to build.''"

text \<open>
  The approval detection at the end of the handler. \<open>newSessionId\<close> and \<open>run\<close> are what
  \<open>generateSessionId\<close> and the collaborator do when this message leads to a generation.
\<close>

definition handleApproval :: "conversationText \<Rightarrow> string \<Rightarrow> codegenRun \<Rightarrow> server \<Rightarrow> server" where
  "handleApproval message newSessionId run sv =
     (if role message = ''user'' \<and> phase (conversationState sv) = prompt_review
         \<and> truthy (lastYamlPrompt (conversationState sv))
         \<and> detectYamlApproval (content message)
      then
        (case lastYamlPrompt (conversationState sv) of
           None \<Rightarrow> sv
         | Some yaml \<Rightarrow>
             (let sv1 = beginGeneration newSessionId sv
              in case startCodeGeneration yaml newSessionId (browserWs sv1) run (codegen sv1) of
                   (result, ws', w') \<Rightarrow>
                     (let sv2 = sv1\<lparr> browserWs := ws', codegen := w' \<rparr>
                      in case result of
                           Inr (Success url) \<Rightarrow> sv2
                         | Inr (Failure err) \<Rightarrow> resetToIdeation sv2
                         | Inl err \<Rightarrow> resetToIdeation sv2)))
      else if role message = ''user''
              \<and> (phase (conversationState sv) = prompt_review
                 \<or> phase (conversationState sv) = ideation)
              \<and> detectYamlApproval (content message)
      then sv\<lparr> browserWs := sendIfOpen (browserWs sv) correctiveMessage \<rparr>
      else sv)"

text \<open>
  The handler for a \<open>ConversationText\<close> message of the agent. The handler is \<open>async\<close> and
  awaits \<open>startCodeGeneration\<close>; the model runs one message to its end, the awaited
  generation included, before the next message. What other tasks do to the generation
  module during the await is part of the run.
\<close>

definition onConversationText :: "conversationText \<Rightarrow> string \<Rightarrow> codegenRun \<Rightarrow> server \<Rightarrow> server" where
  "onConversationText message newSessionId run sv =
     (let sv1 = forwardConversationText message sv;
          sv2 = (if role message = ''assistant''
                 then sv1\<lparr> conversationState :=
                             trackYamlPrompt (content message) (conversationState sv1) \<rparr>
                 else sv1)
      in handleApproval message newSessionId run sv2)"

section \<open>Statement vocabulary for the Generation Session Manager\<close>


text \<open>
  The state of the module when it is loaded: the registry is empty. \<open>noSessions\<close> fills
  the addresses of the store at which no object was created yet.
\<close>

definition noSessions :: "nat \<Rightarrow> GenerationSession" where
  "noSessions a = \<lparr> status = Starting, startTime = 0, yamlPrompt = None, previewUrl = None,
                    repoPath = None, cancelFn = None \<rparr>"

definition initialState :: codegenState where
  "initialState = \<lparr> heap = noSessions, nextAddr = 0, activeGenerations = [],
                     generatedDirs = {}, cancelCalls = [], now = 0 \<rparr>"


text \<open>
  Values for the scenarios: a specification text with all seven keys, a run of the
  collaborator that announces the preview and resolves, and one that reports an error and
  rejects.
\<close>

definition exampleYaml :: string where
  "exampleYaml = ''project_name: a\<newline>project_description: d\<newline>users: u\<newline>goal: g\<newline>features: f\<newline>tech_stack: t\<newline>ui_style: s''"

definition previewRun :: codegenRun where
  "previewRun = \<lparr> steps = [Callback (onLog ''Starting''), CreateDir, Wait 1000,
                            Callback (onPreviewReady ''http://localhost:3001'')],
                   outcome = Inr (''http://localhost:3001'', ''generated/s1/repo''),
                   removalError = None \<rparr>"

definition failingRun :: codegenRun where
  "failingRun = \<lparr> steps = [Callback (onLog ''Starting''), Wait 1000,
                            Callback (onError ''OpenAI returned empty response'')],
                   outcome = Inl (ErrorObject ''OpenAI returned empty response''),
                   removalError = None \<rparr>"

text \<open>
  A run in which the collaborator creates the directory, fails to write a file and
  rejects, and the removal of the directory fails; and a run in which the session is cancelled by another task while
  the generation is awaited, before the collaborator announces the preview and resolves.
\<close>

definition lockedRun :: codegenRun where
  "lockedRun = \<lparr> steps = [CreateDir,
                           Callback (onError ''ENOSPC: no space left on device, write'')],
                  outcome = Inl (ErrorObject ''ENOSPC: no space left on device, write''),
                  removalError = Some (ErrorObject ''EBUSY: resource busy or locked, rmdir'') \<rparr>"

definition cancelledRun :: codegenRun where
  "cancelledRun = \<lparr> steps = [CreateDir, CancelCall ''s1'',
                              Callback (onPreviewReady ''http://localhost:3001'')],
                     outcome = Inr (''http://localhost:3001'', ''generated/s1/repo''),
                     removalError = None \<rparr>"


section \<open>Statement vocabulary for the conversation handler\<close>

text \<open>The conversation state of a new connection: \<open>{ phase: 'ideation' }\<close>.\<close>

definition initialConversation :: ConversationState where
  "initialConversation =
     \<lparr> phase = ideation, lastYamlPrompt = None, sessionId = None, yamlBuffer = None \<rparr>"

text \<open>
  The text that \<open>trackYamlPrompt\<close> hands to \<open>extractYamlFromText\<close> for a message, if it
  hands one: none when the message opens a block; with a block open, the buffer, a newline
  and the message, when the message has a fence or a phrase of moving on; the message
  itself when no block is open.
\<close>

definition extractionCandidate :: "string \<Rightarrow> ConversationState \<Rightarrow> string option" where
  "extractionCandidate content0 cs =
     (if includes_str content0 ''```yaml'' then None
      else (case yamlBuffer cs of
              None \<Rightarrow> Some content0
            | Some buffer \<Rightarrow>
                (if buffer = [] then Some content0
                 else if includes_str content0 ''```'' \<or> isMovingOn content0
                 then Some (buffer @ ''\<newline>'' @ content0)
                 else None)))"

text \<open>Assistant messages processed one after the other.\<close>

definition feed :: "string list \<Rightarrow> ConversationState \<Rightarrow> ConversationState" where
  "feed fragments cs = foldl (\<lambda>s fragment. trackYamlPrompt fragment s) cs fragments"

text \<open>
  What the handler keeps true of the conversation state: a phase other than \<open>ideation\<close>
  comes with a specification.
\<close>

definition specificationBound :: "ConversationState \<Rightarrow> bool" where
  "specificationBound cs = (truthy (lastYamlPrompt cs) \<or> phase cs = ideation)"

section \<open>The Approval Detector: normalisation\<close>

lemma includesAny_iff: "includesAny m ps \<longleftrightarrow> (\<exists>p\<in>set ps. includes_str m p)"
  by (induction ps) auto

lemma sublist_strip_left:
  assumes "p \<noteq> []" "\<not> isWhiteSpace (hd p)" "list_all isWhiteSpace l"
  shows "sublist p (l @ m) \<longleftrightarrow> sublist p m"
  using assms(3)
proof (induction l)
  case Nil
  then show ?case by simp
next
  case (Cons c l)
  have "\<not> prefix p (c # l @ m)"
  proof
    assume "prefix p (c # l @ m)"
    with assms(1) have "hd p = c" by (cases p) auto
    with Cons.prems assms(2) show False by simp
  qed
  with Cons show ?case by (simp add: sublist_Cons_right)
qed

lemma sublist_strip_right:
  assumes "p \<noteq> []" "\<not> isWhiteSpace (last p)" "list_all isWhiteSpace r"
  shows "sublist p (m @ r) \<longleftrightarrow> sublist p m"
proof -
  have "sublist (rev p) (rev r @ rev m) \<longleftrightarrow> sublist (rev p) (rev m)"
    using assms by (intro sublist_strip_left) (simp_all add: hd_rev list_all_iff)
  then show ?thesis by (metis rev_append sublist_rev)
qed

lemma trim_decomp:
  "\<exists>l r. s = l @ trim s @ r \<and> list_all isWhiteSpace l \<and> list_all isWhiteSpace r"
proof -
  define d where "d = dropWhile isWhiteSpace s"
  have s: "s = takeWhile isWhiteSpace s @ d" by (simp add: d_def)
  have "rev (rev d) = rev (takeWhile isWhiteSpace (rev d) @ dropWhile isWhiteSpace (rev d))"
    by (simp only: takeWhile_dropWhile_id)
  then have "d = rev (dropWhile isWhiteSpace (rev d)) @ rev (takeWhile isWhiteSpace (rev d))"
    by (simp only: rev_append rev_rev_ident)
  then have d: "d = trim s @ rev (takeWhile isWhiteSpace (rev d))"
    by (simp only: trim_def d_def)
  have l: "list_all isWhiteSpace (takeWhile isWhiteSpace s)"
    by (simp add: list_all_iff) (meson set_takeWhileD)
  have r: "list_all isWhiteSpace (rev (takeWhile isWhiteSpace (rev d)))"
    by (simp add: list_all_iff) (meson set_takeWhileD)
  from s d have "s = takeWhile isWhiteSpace s @ trim s @ rev (takeWhile isWhiteSpace (rev d))"
    by simp
  with l r show ?thesis by blast
qed

lemma sublist_trim:
  assumes "p \<noteq> []" "\<not> isWhiteSpace (hd p)" "\<not> isWhiteSpace (last p)"
  shows "sublist p (trim s) \<longleftrightarrow> sublist p s"
proof -
  obtain l r where s: "s = l @ trim s @ r" and l: "list_all isWhiteSpace l"
    and r: "list_all isWhiteSpace r" using trim_decomp by blast
  have "sublist p s \<longleftrightarrow> sublist p (l @ trim s @ r)" using s by simp
  also have "\<dots> \<longleftrightarrow> sublist p (trim s @ r)" using assms(1,2) l by (rule sublist_strip_left)
  also have "\<dots> \<longleftrightarrow> sublist p (trim s)" using assms(1,3) r by (rule sublist_strip_right)
  finally show ?thesis by simp
qed

lemma approvalPhrases_edges:
  "\<forall>p\<in>set approvalPhrases. p \<noteq> [] \<and> \<not> isWhiteSpace (hd p) \<and> \<not> isWhiteSpace (last p)"
  by (simp add: approvalPhrases_def isWhiteSpace_def)

lemma detectYamlApproval_iff:
  "detectYamlApproval m \<longleftrightarrow> (\<exists>p\<in>set approvalPhrases. sublist p (toLowerCase m))"
  using approvalPhrases_edges
  by (auto simp: detectYamlApproval_def Let_def includesAny_iff includes_str_def sublist_trim)

lemma toLowerChar_whitespace: "isWhiteSpace c \<Longrightarrow> toLowerChar c = c"
  by (auto simp: isWhiteSpace_def toLowerChar_def)

lemma toLowerCase_whitespace: "list_all isWhiteSpace l \<Longrightarrow> toLowerCase l = l"
  by (induction l) (auto simp: toLowerCase_def toLowerChar_whitespace)

lemma toLowerCase_append: "toLowerCase (a @ b) = toLowerCase a @ toLowerCase b"
  by (simp add: toLowerCase_def)

lemma occursIgnoringCase_iff: "occursIgnoringCase p m \<longleftrightarrow> sublist p (toLowerCase m)"
proof
  assume "occursIgnoringCase p m"
  then obtain a x b where "m = a @ x @ b" "toLowerCase x = p"
    by (auto simp: occursIgnoringCase_def)
  then show "sublist p (toLowerCase m)"
    by (auto simp: toLowerCase_append)
next
  assume "sublist p (toLowerCase m)"
  then obtain a' b' where eq: "map toLowerChar m = a' @ (p @ b')"
    by (auto simp: sublist_def toLowerCase_def)
  from eq [unfolded map_eq_append_conv]
  obtain a y where 1: "m = a @ y" and 2: "p @ b' = map toLowerChar y" by blast
  from 2 [unfolded append_eq_map_conv]
  obtain x b where 3: "y = x @ b" and 4: "p = map toLowerChar x" by blast
  from 1 3 4 have "m = a @ x @ b" "map toLowerChar x = p" by simp_all
  then show "occursIgnoringCase p m"
    by (auto simp: occursIgnoringCase_def toLowerCase_def)
qed

text \<open>
  C7. \<open>detectYamlApproval m\<close> holds exactly when the lower-cased, trimmed message contains
  one of the approval phrases as a substring. Its result does not change when letters of
  \<open>m\<close> change case, nor when white space is put before and behind \<open>m\<close>. It is false for
  every message in which none of the phrases occurs, letter case ignored.
\<close>

theorem detectYamlApproval_normalized_phrase:
  "(detectYamlApproval m \<longleftrightarrow>
      (\<exists>p\<in>set approvalPhrases. \<exists>a b. trim (toLowerCase m) = a @ p @ b))
   \<and> (toLowerCase m' = toLowerCase m \<longrightarrow> detectYamlApproval m' = detectYamlApproval m)
   \<and> (list_all isWhiteSpace l \<and> list_all isWhiteSpace r \<longrightarrow>
        detectYamlApproval (l @ m @ r) = detectYamlApproval m)
   \<and> (list_all (\<lambda>p. \<not> occursIgnoringCase p m) approvalPhrases \<longrightarrow> \<not> detectYamlApproval m)"
proof (intro conjI impI)
  show "detectYamlApproval m \<longleftrightarrow>
      (\<exists>p\<in>set approvalPhrases. \<exists>a b. trim (toLowerCase m) = a @ p @ b)"
    by (simp add: detectYamlApproval_def Let_def includesAny_iff includes_str_def sublist_def)
next
  assume "toLowerCase m' = toLowerCase m"
  then show "detectYamlApproval m' = detectYamlApproval m"
    by (simp add: detectYamlApproval_def)
next
  assume ws: "list_all isWhiteSpace l \<and> list_all isWhiteSpace r"
  have "sublist p (toLowerCase (l @ m @ r)) \<longleftrightarrow> sublist p (toLowerCase m)"
    if "p \<in> set approvalPhrases" for p
  proof -
    from that approvalPhrases_edges
    have p: "p \<noteq> []" "\<not> isWhiteSpace (hd p)" "\<not> isWhiteSpace (last p)" by auto
    have "toLowerCase (l @ m @ r) = l @ toLowerCase m @ r"
      using ws by (simp add: toLowerCase_append toLowerCase_whitespace)
    moreover have "sublist p (l @ toLowerCase m @ r) \<longleftrightarrow> sublist p (toLowerCase m @ r)"
      using p(1,2) ws by (intro sublist_strip_left) simp_all
    moreover have "sublist p (toLowerCase m @ r) \<longleftrightarrow> sublist p (toLowerCase m)"
      using p(1,3) ws by (intro sublist_strip_right) simp_all
    ultimately show ?thesis by simp
  qed
  then show "detectYamlApproval (l @ m @ r) = detectYamlApproval m"
    by (simp add: detectYamlApproval_iff)
next
  assume "list_all (\<lambda>p. \<not> occursIgnoringCase p m) approvalPhrases"
  then show "\<not> detectYamlApproval m"
    by (simp add: detectYamlApproval_iff occursIgnoringCase_iff list_all_iff)
qed

theorem detectYamlApproval_normalized_phrase_witness:
  "toLowerCase ''YES'' = toLowerCase ''yes''
   \<and> detectYamlApproval ''YES'' = detectYamlApproval ''yes''
   \<and> list_all isWhiteSpace '' '' \<and> list_all isWhiteSpace ''\<newline>''
   \<and> detectYamlApproval ('' '' @ ''yes'' @ ''\<newline>'') = detectYamlApproval ''yes''
   \<and> detectYamlApproval ''yes''
   \<and> list_all (\<lambda>p. \<not> occursIgnoringCase p ''no'') approvalPhrases
   \<and> \<not> detectYamlApproval ''no''"
proof -
  have lower: "toLowerCase ''YES'' = toLowerCase ''yes''" by code_simp
  have ws: "list_all isWhiteSpace '' '' \<and> list_all isWhiteSpace ''\<newline>''" by code_simp
  have yes: "detectYamlApproval ''yes''" by code_simp
  have none: "list_all (\<lambda>p. \<not> occursIgnoringCase p ''no'') approvalPhrases"
    unfolding occursIgnoringCase_iff by code_simp
  from detectYamlApproval_normalized_phrase [of "''yes''" "''YES''" "'' ''" "''\<newline>''"] lower ws
  have a: "detectYamlApproval ''YES'' = detectYamlApproval ''yes''"
    and b: "detectYamlApproval ('' '' @ ''yes'' @ ''\<newline>'') = detectYamlApproval ''yes''"
    by blast+
  from detectYamlApproval_normalized_phrase [of "''no''" "''no''" "[]" "[]"] none
  have c: "\<not> detectYamlApproval ''no''" by blast
  from lower a ws b yes none c show ?thesis by blast
qed

section \<open>The Extraction Engine: completeness of the result\<close>

text \<open>A result of the fenced patterns has all seven keys.\<close>

lemma tryPatterns_complete: "tryPatterns ps text = Some y \<Longrightarrow> hasAllFields y"
  by (induction ps) (auto simp: Let_def split: option.splits if_splits)

text \<open>
  C1. The claim is that \<open>extractYamlFromText\<close> returns a specification only when the
  candidate has all seven keys, on the fallback scan too. The fallback scan tests the
  whole text for five keys only: a text without fences that has \<open>project_name:\<close>, \<open>users:\<close>,
  \<open>goal:\<close>, \<open>features:\<close> and \<open>tech_stack:\<close>, and neither \<open>project_description:\<close> nor
  \<open>ui_style:\<close>, is returned as a specification.
\<close>

theorem extractYamlFromText_fallback_incomplete:
  "extractYamlFromText
     ''project_name: a\<newline>users: u\<newline>goal: g\<newline>features: f\<newline>tech_stack: t''
   = Some ''project_name: a\<newline>users: u\<newline>goal: g\<newline>features: f\<newline>tech_stack: t''
   \<and> \<not> includes_str
        ''project_name: a\<newline>users: u\<newline>goal: g\<newline>features: f\<newline>tech_stack: t''
        ''project_description:''
   \<and> \<not> includes_str
        ''project_name: a\<newline>users: u\<newline>goal: g\<newline>features: f\<newline>tech_stack: t''
        ''ui_style:''"
  by code_simp

section \<open>Validation: the checked fields\<close>

text \<open>
  C10. \<open>validateYamlPrompt y\<close> is valid exactly when \<open>y\<close> contains \<open>project_name:\<close>,
  \<open>features:\<close> and \<open>tech_stack:\<close>; no other key is looked at for validity. When valid, the
  processed text is \<open>y\<close>, with the line \<open>ui_style: Clean and modern\<close> appended exactly when
  \<open>y\<close> has no \<open>ui_style:\<close>. When invalid, there is no processed text. The errors are one
  message per missing checked field, in the order of the checks.
\<close>

theorem validateYamlPrompt_checked_fields:
  "isValid (validateYamlPrompt y) =
     (includes_str y ''project_name:'' \<and> includes_str y ''features:''
      \<and> includes_str y ''tech_stack:'')
   \<and> processed (validateYamlPrompt y) =
     (if isValid (validateYamlPrompt y)
      then Some (if includes_str y ''ui_style:'' then y
                 else y @ ''\<newline>ui_style: Clean and modern'')
      else None)
   \<and> errors (validateYamlPrompt y) =
     map (\<lambda>k. ''Missing required field: '' @ k)
       (filter (\<lambda>k. \<not> includes_str y (k @ '':''))
          [''project_name'', ''features'', ''tech_stack''])"
  by (simp add: validateYamlPrompt_def Let_def)

section \<open>The registry as a list of entries\<close>

lemma Map_delete_filter: "Map_delete k m = filter (\<lambda>e. fst e \<noteq> k) m"
  by (induction m) auto


lemma Map_get_Some_mem: "Map_get k m = Some v \<Longrightarrow> (k, v) \<in> set m"
  by (induction m) (auto split: if_splits)



lemma keys_Map_set:
  "map fst (Map_set k v m) = (if k \<in> fst ` set m then map fst m else map fst m @ [k])"
  by (induction m) (force split: if_splits)+

lemma distinct_Map_set: "distinct (map fst m) \<Longrightarrow> distinct (map fst (Map_set k v m))"
  by (simp add: keys_Map_set)

lemma distinct_Map_delete: "distinct (map fst m) \<Longrightarrow> distinct (map fst (Map_delete k m))"
  by (simp add: Map_delete_filter distinct_map_filter)

section \<open>The staleness sweep\<close>









section \<open>The Generation Session Manager: cancel and start\<close>







text \<open>The \<open>catch\<close> block when the removal of the directory does not fail.\<close>

lemma catchBlock_removed:
  "catchBlock a sid err None ws w =
     (Inr (Failure (thrownMessage err)),
      emitEvent ws ''codegen-error'' sid
        [(''error'', JStr (thrownMessage err)),
         (''duration'', JNum (now w - startTime (heap w a)))],
      w\<lparr> heap := (heap w)(a := (heap w a)\<lparr> status := Error \<rparr>),
         generatedDirs := generatedDirs w - {sid},
         activeGenerations := Map_delete sid (activeGenerations w) \<rparr>)"
  by (simp add: catchBlock_def cleanupSessionOrThrow_def cleanupSession_def setStatus_def Let_def)

text \<open>\<open>startCodeGeneration\<close> on a socket, by the result of validation and of the collaborator.\<close>

lemma startCodeGeneration_invalid:
  assumes "\<not> isValid (validateYamlPrompt y)" and "removalError run = None"
  shows "startCodeGeneration y sid (Some ws) run w =
           (Inr (Failure (''YAML validation failed: '' @ join '', '' (errors (validateYamlPrompt y)))),
            Some (emitEvent (emitEvent ws ''codegen-start'' sid [(''yamlPrompt'', JStr y)])
                    ''codegen-error'' sid
                    [(''error'', JStr (''YAML validation failed: ''
                                        @ join '', '' (errors (validateYamlPrompt y)))),
                     (''duration'', JNum 0)]),
            w\<lparr> heap := (heap w)(nextAddr w :=
                          \<lparr> status = Error, startTime = now w, yamlPrompt = Some y,
                            previewUrl = None, repoPath = None, cancelFn = None \<rparr>),
               nextAddr := nextAddr w + 1,
               activeGenerations := Map_delete sid (Map_set sid (nextAddr w) (activeGenerations w)),
               generatedDirs := generatedDirs w - {sid} \<rparr>)"
  using assms
  by (simp add: startCodeGeneration_def registerSession_def tryBlock_def catchBlock_removed
        Let_def thrownMessage_def)

lemma Map_set_Map_delete_absent: "sid \<notin> fst ` set (Map_delete sid m)"
  by (simp add: Map_delete_filter image_iff)

lemma startCodeGeneration_rejected:
  assumes "isValid (validateYamlPrompt y)" and "outcome run = Inl err"
    and "removalError run = None"
  shows "\<exists>ws' w'. startCodeGeneration y sid (Some ws) run w =
           (Inr (Failure (thrownMessage err)), Some ws', w')
           \<and> status (heap w' (nextAddr w)) = Error
           \<and> sid \<notin> generatedDirs w'
           \<and> sid \<notin> fst ` set (activeGenerations w')"
proof -
  define a where "a = nextAddr w"
  define w1 where "w1 = snd (registerSession y sid w)"
  define ws1 where "ws1 = emitEvent ws ''codegen-start'' sid [(''yamlPrompt'', JStr y)]"
  obtain ws2 w3 where f: "foldl (runStep a sid)
      (emitEvent ws1 ''codegen-validation-passed'' sid [], setStatus a Generating w1) (steps run)
      = (ws2, w3)"
    by (cases "foldl (runStep a sid)
      (emitEvent ws1 ''codegen-validation-passed'' sid [], setStatus a Generating w1) (steps run)")
       auto
  have reg: "registerSession y sid w = (a, w1)"
    by (simp add: registerSession_def a_def w1_def Let_def)
  have tb: "tryBlock a y sid run ws1 w1 = (Inl err, ws2, w3)"
    using assms f by (simp add: tryBlock_def Let_def)
  have r: "startCodeGeneration y sid (Some ws) run w =
      (case catchBlock a sid err None ws2 w3 of
         (result, ws3, w4) \<Rightarrow> (result, Some ws3, w4))"
    unfolding startCodeGeneration_def reg using assms(3) by (simp add: tb ws1_def [symmetric])
  show ?thesis
    unfolding r catchBlock_removed
    by (simp add: Map_set_Map_delete_absent a_def)
qed

lemma startCodeGeneration_resolved:
  assumes "isValid (validateYamlPrompt y)" and "outcome run = Inr (url, path)"
  shows "\<exists>ws0 w0 ws2 w3 ws'.
           foldl (runStep (nextAddr w) sid) (ws0, w0) (steps run) = (ws2, w3)
           \<and> activeGenerations w0 = Map_set sid (nextAddr w) (activeGenerations w)
           \<and> startCodeGeneration y sid (Some ws) run w =
               (Inr (Success url), Some ws',
                w3\<lparr> heap := (heap w3)(nextAddr w :=
                              (heap w3 (nextAddr w))\<lparr> repoPath := Some path \<rparr>) \<rparr>)"
proof -
  define a where "a = nextAddr w"
  define w1 where "w1 = snd (registerSession y sid w)"
  define ws1 where "ws1 = emitEvent ws ''codegen-start'' sid [(''yamlPrompt'', JStr y)]"
  obtain ws2 w3 where f: "foldl (runStep a sid)
      (emitEvent ws1 ''codegen-validation-passed'' sid [], setStatus a Generating w1) (steps run)
      = (ws2, w3)"
    by (cases "foldl (runStep a sid)
      (emitEvent ws1 ''codegen-validation-passed'' sid [], setStatus a Generating w1) (steps run)")
       auto
  have reg: "registerSession y sid w = (a, w1)"
    by (simp add: registerSession_def a_def w1_def Let_def)
  have tb: "tryBlock a y sid run ws1 w1 =
      (Inr (Success url),
       emitEvent ws2 ''codegen-complete'' sid
         [(''previewUrl'', JStr url), (''repoPath'', JStr path),
          (''duration'', JNum (now w3 - startTime (heap w3 a)))],
       w3\<lparr> heap := (heap w3)(a := (heap w3 a)\<lparr> repoPath := Some path \<rparr>) \<rparr>)"
    using assms f by (simp add: tryBlock_def Let_def)
  have r: "startCodeGeneration y sid (Some ws) run w =
      (Inr (Success url),
       Some (emitEvent ws2 ''codegen-complete'' sid
         [(''previewUrl'', JStr url), (''repoPath'', JStr path),
          (''duration'', JNum (now w3 - startTime (heap w3 a)))]),
       w3\<lparr> heap := (heap w3)(a := (heap w3 a)\<lparr> repoPath := Some path \<rparr>) \<rparr>)"
    unfolding startCodeGeneration_def reg by (simp add: tb ws1_def [symmetric])
  have "activeGenerations (setStatus a Generating w1)
      = Map_set sid (nextAddr w) (activeGenerations w)"
    by (simp add: setStatus_def w1_def registerSession_def Let_def)
  with f r show ?thesis unfolding a_def by blast
qed

lemma exampleYaml_valid: "isValid (validateYamlPrompt exampleYaml)"
  unfolding exampleYaml_def by code_simp



text \<open>
  C6, as claimed, fails. With a prompt that fails validation and a socket that is not
  open, no error event goes out: \<open>emitEvent\<close> sends only on an open socket. With the \<open>null\<close>
  socket that the relay passes when no browser is connected, the function throws a
  \<open>TypeError\<close> instead of returning. When the collaborator rejects and the removal of the
  session's directory fails, what the removal throws leaves the function.
\<close>

theorem startCodeGeneration_silent_or_throwing:
  "fst (startCodeGeneration ''features: x'' ''s1'' (Some \<lparr> readyState = CLOSING, sent = [] \<rparr>)
          previewRun initialState)
     = Inr (Failure ''YAML validation failed: Missing required field: project_name, Missing required field: tech_stack'')
   \<and> fst (snd (startCodeGeneration ''features: x'' ''s1''
          (Some \<lparr> readyState = CLOSING, sent = [] \<rparr>) previewRun initialState))
     = Some \<lparr> readyState = CLOSING, sent = [] \<rparr>
   \<and> fst (startCodeGeneration ''features: x'' ''s1'' None previewRun initialState)
     = Inl (ErrorObject ''Cannot read properties of null (reading 'readyState')'')
   \<and> fst (startCodeGeneration exampleYaml ''s1'' (Some \<lparr> readyState = OPEN, sent = [] \<rparr>)
          lockedRun initialState)
     = Inl (ErrorObject ''EBUSY: resource busy or locked, rmdir'')"
proof -
  have inv: "\<not> isValid (validateYamlPrompt ''features: x'')" by code_simp
  have err: "errors (validateYamlPrompt ''features: x'')
      = [''Missing required field: project_name'', ''Missing required field: tech_stack'']"
    by code_simp
  have n: "removalError previewRun = None" by (simp add: previewRun_def)
  have 1: "fst (startCodeGeneration ''features: x'' ''s1'' (Some \<lparr> readyState = CLOSING, sent = [] \<rparr>)
          previewRun initialState)
     = Inr (Failure ''YAML validation failed: Missing required field: project_name, Missing required field: tech_stack'')
   \<and> fst (snd (startCodeGeneration ''features: x'' ''s1''
          (Some \<lparr> readyState = CLOSING, sent = [] \<rparr>) previewRun initialState))
     = Some \<lparr> readyState = CLOSING, sent = [] \<rparr>"
    by (simp add: startCodeGeneration_invalid [OF inv n] err emitEvent_def)
  have 2: "fst (startCodeGeneration ''features: x'' ''s1'' None previewRun initialState)
     = Inl (ErrorObject ''Cannot read properties of null (reading 'readyState')'')"
    by (simp add: startCodeGeneration_def registerSession_def Let_def)
  have 3: "fst (startCodeGeneration exampleYaml ''s1'' (Some \<lparr> readyState = OPEN, sent = [] \<rparr>)
          lockedRun initialState)
     = Inl (ErrorObject ''EBUSY: resource busy or locked, rmdir'')"
    using exampleYaml_valid
    by (simp add: startCodeGeneration_def registerSession_def tryBlock_def catchBlock_def
          cleanupSessionOrThrow_def Let_def setStatus_def lockedRun_def initialState_def
          emitEvent_def)
  from 1 2 3 show ?thesis by blast
qed

text \<open>
  C6, amended. Called with a socket, and when the removal of the session's directory does
  not fail, \<open>startCodeGeneration\<close> on a YAML prompt that fails validation sets the status of
  the session to \<open>error\<close>, hands the event \<open>codegen-error\<close> to \<open>emitEvent\<close> behind
  \<open>codegen-start\<close> (both reach the client when the socket is open), removes the session's
  directory and the registry entry, and returns the failure result with the validation
  message; state and result are the same for every such run, the collaborator is never
  invoked. Under the same two conditions a run in which the collaborator rejects returns a
  failure result with the message of the thrown value, and the function always returns
  and never throws.
\<close>

theorem startCodeGeneration_reports_failures:
  "(\<not> isValid (validateYamlPrompt y) \<and> removalError run = None \<longrightarrow>
      (\<exists>w' d. startCodeGeneration y sid (Some ws) run w =
               (Inr (Failure (''YAML validation failed: ''
                              @ join '', '' (errors (validateYamlPrompt y)))),
                Some (emitEvent
                        (emitEvent ws ''codegen-start'' sid [(''yamlPrompt'', JStr y)])
                        ''codegen-error'' sid
                        [(''error'', JStr (''YAML validation failed: ''
                                            @ join '', '' (errors (validateYamlPrompt y)))),
                         (''duration'', JNum d)]),
                w')
            \<and> status (heap w' (nextAddr w)) = Error
            \<and> sid \<notin> generatedDirs w'
            \<and> sid \<notin> fst ` set (activeGenerations w')
            \<and> (readyState ws = OPEN \<longrightarrow>
                 fst (snd (startCodeGeneration y sid (Some ws) run w))
                   = Some (ws\<lparr> sent := sent ws
                        @ [Event ''codegen-start'' sid [(''yamlPrompt'', JStr y)],
                           Event ''codegen-error'' sid
                             [(''error'', JStr (''YAML validation failed: ''
                                                 @ join '', '' (errors (validateYamlPrompt y)))),
                              (''duration'', JNum d)]] \<rparr>)))
      \<and> (removalError run' = None \<longrightarrow>
           startCodeGeneration y sid (Some ws) run' w = startCodeGeneration y sid (Some ws) run w))
   \<and> (isValid (validateYamlPrompt y) \<and> outcome run = Inl err \<and> removalError run = None \<longrightarrow>
        (\<exists>ws' w'. startCodeGeneration y sid (Some ws) run w
                     = (Inr (Failure (thrownMessage err)), Some ws', w')
                  \<and> status (heap w' (nextAddr w)) = Error
                  \<and> sid \<notin> generatedDirs w'
                  \<and> sid \<notin> fst ` set (activeGenerations w')))
   \<and> (removalError run = None \<longrightarrow>
        (\<exists>r ws' w'. startCodeGeneration y sid (Some ws) run w = (Inr r, Some ws', w')))"
proof -
  have invalid: "(\<exists>w' d. startCodeGeneration y sid (Some ws) run w =
               (Inr (Failure (''YAML validation failed: ''
                              @ join '', '' (errors (validateYamlPrompt y)))),
                Some (emitEvent
                        (emitEvent ws ''codegen-start'' sid [(''yamlPrompt'', JStr y)])
                        ''codegen-error'' sid
                        [(''error'', JStr (''YAML validation failed: ''
                                            @ join '', '' (errors (validateYamlPrompt y)))),
                         (''duration'', JNum d)]),
                w')
            \<and> status (heap w' (nextAddr w)) = Error
            \<and> sid \<notin> generatedDirs w'
            \<and> sid \<notin> fst ` set (activeGenerations w')
            \<and> (readyState ws = OPEN \<longrightarrow>
                 fst (snd (startCodeGeneration y sid (Some ws) run w))
                   = Some (ws\<lparr> sent := sent ws
                        @ [Event ''codegen-start'' sid [(''yamlPrompt'', JStr y)],
                           Event ''codegen-error'' sid
                             [(''error'', JStr (''YAML validation failed: ''
                                                 @ join '', '' (errors (validateYamlPrompt y)))),
                              (''duration'', JNum d)]] \<rparr>)))
      \<and> (removalError run' = None \<longrightarrow>
           startCodeGeneration y sid (Some ws) run' w = startCodeGeneration y sid (Some ws) run w)"
    if h: "\<not> isValid (validateYamlPrompt y) \<and> removalError run = None"
  proof -
    from h have inv: "\<not> isValid (validateYamlPrompt y)" and rm: "removalError run = None"
      by simp_all
    let ?w' = "w\<lparr> heap := (heap w)(nextAddr w :=
                          \<lparr> status = Error, startTime = now w, yamlPrompt = Some y,
                            previewUrl = None, repoPath = None, cancelFn = None \<rparr>),
               nextAddr := nextAddr w + 1,
               activeGenerations := Map_delete sid (Map_set sid (nextAddr w) (activeGenerations w)),
               generatedDirs := generatedDirs w - {sid} \<rparr>"
    have "startCodeGeneration y sid (Some ws) run w =
               (Inr (Failure (''YAML validation failed: ''
                              @ join '', '' (errors (validateYamlPrompt y)))),
                Some (emitEvent
                        (emitEvent ws ''codegen-start'' sid [(''yamlPrompt'', JStr y)])
                        ''codegen-error'' sid
                        [(''error'', JStr (''YAML validation failed: ''
                                            @ join '', '' (errors (validateYamlPrompt y)))),
                         (''duration'', JNum 0)]),
                ?w')
            \<and> status (heap ?w' (nextAddr w)) = Error
            \<and> sid \<notin> generatedDirs ?w'
            \<and> sid \<notin> fst ` set (activeGenerations ?w')
            \<and> (readyState ws = OPEN \<longrightarrow>
                 fst (snd (startCodeGeneration y sid (Some ws) run w))
                   = Some (ws\<lparr> sent := sent ws
                        @ [Event ''codegen-start'' sid [(''yamlPrompt'', JStr y)],
                           Event ''codegen-error'' sid
                             [(''error'', JStr (''YAML validation failed: ''
                                                 @ join '', '' (errors (validateYamlPrompt y)))),
                              (''duration'', JNum 0)]] \<rparr>))"
      unfolding startCodeGeneration_invalid [OF inv rm]
      by (simp add: Map_set_Map_delete_absent emitEvent_def)
    then have 1: "\<exists>w' d. startCodeGeneration y sid (Some ws) run w =
               (Inr (Failure (''YAML validation failed: ''
                              @ join '', '' (errors (validateYamlPrompt y)))),
                Some (emitEvent
                        (emitEvent ws ''codegen-start'' sid [(''yamlPrompt'', JStr y)])
                        ''codegen-error'' sid
                        [(''error'', JStr (''YAML validation failed: ''
                                            @ join '', '' (errors (validateYamlPrompt y)))),
                         (''duration'', JNum d)]),
                w')
            \<and> status (heap w' (nextAddr w)) = Error
            \<and> sid \<notin> generatedDirs w'
            \<and> sid \<notin> fst ` set (activeGenerations w')
            \<and> (readyState ws = OPEN \<longrightarrow>
                 fst (snd (startCodeGeneration y sid (Some ws) run w))
                   = Some (ws\<lparr> sent := sent ws
                        @ [Event ''codegen-start'' sid [(''yamlPrompt'', JStr y)],
                           Event ''codegen-error'' sid
                             [(''error'', JStr (''YAML validation failed: ''
                                                 @ join '', '' (errors (validateYamlPrompt y)))),
                              (''duration'', JNum d)]] \<rparr>))"
      by blast
    have 2: "startCodeGeneration y sid (Some ws) run' w = startCodeGeneration y sid (Some ws) run w"
      if "removalError run' = None"
      by (simp only: startCodeGeneration_invalid [OF inv rm] startCodeGeneration_invalid [OF inv that])
    from 1 2 show ?thesis by blast
  qed
  have rejected: "\<exists>ws' w'. startCodeGeneration y sid (Some ws) run w
                     = (Inr (Failure (thrownMessage err)), Some ws', w')
                  \<and> status (heap w' (nextAddr w)) = Error
                  \<and> sid \<notin> generatedDirs w'
                  \<and> sid \<notin> fst ` set (activeGenerations w')"
    if "isValid (validateYamlPrompt y) \<and> outcome run = Inl err \<and> removalError run = None"
    using that by (intro startCodeGeneration_rejected) simp_all
  have returns: "\<exists>r ws' w'. startCodeGeneration y sid (Some ws) run w = (Inr r, Some ws', w')"
    if rm: "removalError run = None"
  proof (cases "isValid (validateYamlPrompt y)")
    case False
    from startCodeGeneration_invalid [OF this rm, where sid = sid and ws = ws and w = w]
    show ?thesis by blast
  next
    case True
    show ?thesis
    proof (cases "outcome run")
      case (Inl e)
      from startCodeGeneration_rejected [OF True Inl rm, where sid = sid and ws = ws and w = w]
      show ?thesis by blast
    next
      case (Inr p)
      then obtain url path where "outcome run = Inr (url, path)" by (cases p) simp
      from startCodeGeneration_resolved [OF True this, where sid = sid and ws = ws and w = w]
      show ?thesis by blast
    qed
  qed
  from invalid rejected returns show ?thesis by blast
qed

theorem startCodeGeneration_reports_failures_witness:
  "\<not> isValid (validateYamlPrompt ''features: x'')
   \<and> removalError previewRun = None \<and> removalError failingRun = None
   \<and> startCodeGeneration ''features: x'' ''s1'' (Some \<lparr> readyState = OPEN, sent = [] \<rparr>)
        failingRun initialState
      = startCodeGeneration ''features: x'' ''s1'' (Some \<lparr> readyState = OPEN, sent = [] \<rparr>)
          previewRun initialState
   \<and> fst (startCodeGeneration ''features: x'' ''s1'' (Some \<lparr> readyState = OPEN, sent = [] \<rparr>)
            previewRun initialState)
      = Inr (Failure ''YAML validation failed: Missing required field: project_name, Missing required field: tech_stack'')
   \<and> fst (snd (startCodeGeneration ''features: x'' ''s1'' (Some \<lparr> readyState = OPEN, sent = [] \<rparr>)
                 previewRun initialState))
      = Some \<lparr> readyState = OPEN,
               sent = [Event ''codegen-start'' ''s1'' [(''yamlPrompt'', JStr ''features: x'')],
                       Event ''codegen-error'' ''s1''
                         [(''error'', JStr ''YAML validation failed: Missing required field: project_name, Missing required field: tech_stack''),
                          (''duration'', JNum 0)]] \<rparr>
   \<and> isValid (validateYamlPrompt exampleYaml)
   \<and> outcome failingRun = Inl (ErrorObject ''OpenAI returned empty response'')
   \<and> fst (startCodeGeneration exampleYaml ''s1'' (Some \<lparr> readyState = OPEN, sent = [] \<rparr>)
            failingRun initialState)
      = Inr (Failure ''OpenAI returned empty response'')"
proof -
  have inv: "\<not> isValid (validateYamlPrompt ''features: x'')" by code_simp
  have err: "errors (validateYamlPrompt ''features: x'')
      = [''Missing required field: project_name'', ''Missing required field: tech_stack'']"
    by code_simp
  have o: "outcome failingRun = Inl (ErrorObject ''OpenAI returned empty response'')"
    by (simp add: failingRun_def)
  have rm: "removalError previewRun = None" "removalError failingRun = None"
    by (simp_all add: previewRun_def failingRun_def)
  note t1 = startCodeGeneration_reports_failures
      [where y = "''features: x''" and sid = "''s1''" and run = previewRun
         and run' = failingRun and w = initialState
         and ws = "\<lparr> readyState = OPEN, sent = [] \<rparr>"]
  note t2 = startCodeGeneration_reports_failures
      [where y = exampleYaml and sid = "''s1''" and run = failingRun and w = initialState
         and ws = "\<lparr> readyState = OPEN, sent = [] \<rparr>"
         and err = "ErrorObject ''OpenAI returned empty response''"]
  from t1 inv rm have a: "startCodeGeneration ''features: x'' ''s1''
        (Some \<lparr> readyState = OPEN, sent = [] \<rparr>) failingRun initialState
      = startCodeGeneration ''features: x'' ''s1'' (Some \<lparr> readyState = OPEN, sent = [] \<rparr>)
          previewRun initialState"
    by blast
  from t1 inv rm obtain w' d where b: "startCodeGeneration ''features: x'' ''s1''
        (Some \<lparr> readyState = OPEN, sent = [] \<rparr>) previewRun initialState =
      (Inr (Failure (''YAML validation failed: ''
                      @ join '', '' (errors (validateYamlPrompt ''features: x'')))),
       Some (emitEvent
               (emitEvent \<lparr> readyState = OPEN, sent = [] \<rparr> ''codegen-start'' ''s1''
                  [(''yamlPrompt'', JStr ''features: x'')])
               ''codegen-error'' ''s1''
               [(''error'', JStr (''YAML validation failed: ''
                                   @ join '', '' (errors (validateYamlPrompt ''features: x'')))),
                (''duration'', JNum d)]),
       w')"
    by blast
  from t2 exampleYaml_valid o rm obtain ws' w'' where c: "startCodeGeneration exampleYaml ''s1''
        (Some \<lparr> readyState = OPEN, sent = [] \<rparr>) failingRun initialState
      = (Inr (Failure (thrownMessage (ErrorObject ''OpenAI returned empty response''))),
         Some ws', w'')"
    by blast
  have e: "fst (snd (startCodeGeneration ''features: x'' ''s1''
        (Some \<lparr> readyState = OPEN, sent = [] \<rparr>) previewRun initialState))
      = Some \<lparr> readyState = OPEN,
               sent = [Event ''codegen-start'' ''s1'' [(''yamlPrompt'', JStr ''features: x'')],
                       Event ''codegen-error'' ''s1''
                         [(''error'', JStr ''YAML validation failed: Missing required field: project_name, Missing required field: tech_stack''),
                          (''duration'', JNum 0)]] \<rparr>"
    by (simp add: startCodeGeneration_invalid [OF inv rm(1)] err emitEvent_def)
  show ?thesis
    using inv exampleYaml_valid o e rm
    by (simp add: a b c err thrownMessage_def)
qed

section \<open>Terminal sessions and the registry\<close>

text \<open>
  A session that another task cancels while its generation is awaited leaves the registry
  at once; the collaborator goes on, announces the preview and resolves, and
  \<open>startCodeGeneration\<close> returns success for a session in status \<open>ready\<close> that is not
  registered.
\<close>

lemma cancelled_during_await:
  "fst (startCodeGeneration exampleYaml ''s1'' (Some \<lparr> readyState = OPEN, sent = [] \<rparr>)
          cancelledRun initialState)
     = Inr (Success ''http://localhost:3001'')
   \<and> status (heap (snd (snd (startCodeGeneration exampleYaml ''s1''
          (Some \<lparr> readyState = OPEN, sent = [] \<rparr>) cancelledRun initialState))) 0) = Ready
   \<and> Map_get ''s1'' (activeGenerations (snd (snd (startCodeGeneration exampleYaml ''s1''
          (Some \<lparr> readyState = OPEN, sent = [] \<rparr>) cancelledRun initialState)))) = None"
  using exampleYaml_valid
  by (simp add: startCodeGeneration_def registerSession_def tryBlock_def Let_def
        setStatus_def cancelledRun_def initialState_def emitEvent_def
        cancelCodeGeneration_def cleanupSession_def noSessions_def)




section \<open>The Stream Buffer and the phase\<close>

lemma trackYamlPrompt_by_candidate:
  "lastYamlPrompt (trackYamlPrompt c cs) =
     (case extractionCandidate c cs of
        None \<Rightarrow> lastYamlPrompt cs
      | Some t \<Rightarrow> lastYamlPrompt (acceptExtraction (extractYamlFromText t) cs))"
  "phase (trackYamlPrompt c cs) =
     (case extractionCandidate c cs of
        None \<Rightarrow> phase cs
      | Some t \<Rightarrow> phase (acceptExtraction (extractYamlFromText t) cs))"
  "sessionId (trackYamlPrompt c cs) = sessionId cs"
  by (auto simp: trackYamlPrompt_def extractionCandidate_def acceptExtraction_def Let_def
           split: option.splits)

lemma example_fenced: "extractYamlFromText (''```\<newline>'' @ exampleYaml @ ''\<newline>```'') = Some exampleYaml"
  unfolding exampleYaml_def by code_simp

text \<open>
  C8, as claimed, fails: with the phase \<open>code_generation\<close>, an assistant message with a
  complete fenced specification is extracted, and the phase goes back to \<open>prompt_review\<close>.
\<close>

theorem extraction_moves_phase_back:
  "phase (trackYamlPrompt (''```\<newline>'' @ exampleYaml @ ''\<newline>```'')
            \<lparr> phase = code_generation, lastYamlPrompt = Some ''project_name: old'',
              sessionId = Some ''s1'', yamlBuffer = None \<rparr>) = prompt_review
   \<and> lastYamlPrompt (trackYamlPrompt (''```\<newline>'' @ exampleYaml @ ''\<newline>```'')
            \<lparr> phase = code_generation, lastYamlPrompt = Some ''project_name: old'',
              sessionId = Some ''s1'', yamlBuffer = None \<rparr>) = Some exampleYaml"
  unfolding exampleYaml_def by code_simp

text \<open>
  C8, amended. Every successful extraction replaces \<open>lastYamlPrompt\<close> with the newly
  extracted specification and sets the phase to \<open>prompt_review\<close>: the phase is unchanged
  when it was \<open>prompt_review\<close> already.
\<close>

theorem extraction_success_sets_prompt_review:
  "extractionCandidate c cs = Some t \<and> extractYamlFromText t = Some y \<and> y \<noteq> [] \<longrightarrow>
     lastYamlPrompt (trackYamlPrompt c cs) = Some y
     \<and> phase (trackYamlPrompt c cs) = prompt_review
     \<and> (phase cs = prompt_review \<longrightarrow> phase (trackYamlPrompt c cs) = phase cs)"
  by (simp add: trackYamlPrompt_by_candidate acceptExtraction_def)

theorem extraction_success_sets_prompt_review_witness:
  "extractionCandidate (''```\<newline>'' @ exampleYaml @ ''\<newline>```'')
       (initialConversation\<lparr> phase := prompt_review, lastYamlPrompt := Some ''project_name: old'' \<rparr>)
     = Some (''```\<newline>'' @ exampleYaml @ ''\<newline>```'')
   \<and> extractYamlFromText (''```\<newline>'' @ exampleYaml @ ''\<newline>```'') = Some exampleYaml
   \<and> exampleYaml \<noteq> []
   \<and> lastYamlPrompt (trackYamlPrompt (''```\<newline>'' @ exampleYaml @ ''\<newline>```'')
        (initialConversation\<lparr> phase := prompt_review, lastYamlPrompt := Some ''project_name: old'' \<rparr>))
      = Some exampleYaml
   \<and> phase (trackYamlPrompt (''```\<newline>'' @ exampleYaml @ ''\<newline>```'')
        (initialConversation\<lparr> phase := prompt_review, lastYamlPrompt := Some ''project_name: old'' \<rparr>))
      = prompt_review"
proof -
  have c: "extractionCandidate (''```\<newline>'' @ exampleYaml @ ''\<newline>```'')
       (initialConversation\<lparr> phase := prompt_review, lastYamlPrompt := Some ''project_name: old'' \<rparr>)
     = Some (''```\<newline>'' @ exampleYaml @ ''\<newline>```'')"
    unfolding exampleYaml_def initialConversation_def by code_simp
  have n: "exampleYaml \<noteq> []" by (simp add: exampleYaml_def)
  from extraction_success_sets_prompt_review
         [where c = "''```\<newline>'' @ exampleYaml @ ''\<newline>```''"
            and cs = "initialConversation\<lparr> phase := prompt_review,
                        lastYamlPrompt := Some ''project_name: old'' \<rparr>"
            and t = "''```\<newline>'' @ exampleYaml @ ''\<newline>```''" and y = exampleYaml]
       c example_fenced n
  show ?thesis by blast
qed

section \<open>The Stream Buffer: fragments\<close>

lemma no_fence_no_tag: "\<not> includes_str m ''```'' \<Longrightarrow> \<not> includes_str m ''```yaml''"
proof -
  have "sublist ''```'' ''```yaml''" by code_simp
  then show "\<not> includes_str m ''```'' \<Longrightarrow> \<not> includes_str m ''```yaml''"
    unfolding includes_str_def by (meson sublist_order.order_trans)
qed

lemma tag_nonempty: "includes_str f ''```yaml'' \<Longrightarrow> f \<noteq> []"
  by (auto simp: includes_str_def)

lemma join_snoc: "xs \<noteq> [] \<Longrightarrow> join sep (xs @ [x]) = join sep xs @ sep @ x"
  by (induction sep xs rule: join.induct) auto

lemma join_nonempty: "b \<noteq> [] \<Longrightarrow> join sep (b # ms) \<noteq> []"
  by (cases ms) auto

lemma feed_accumulates:
  assumes "list_all (\<lambda>m. \<not> includes_str m ''```'' \<and> \<not> isMovingOn m) ms"
    and "yamlBuffer cs = Some b" and "b \<noteq> []"
  shows "feed ms cs = cs\<lparr> yamlBuffer := Some (join ''\<newline>'' (b # ms)) \<rparr>"
  using assms
proof (induction ms arbitrary: cs rule: rev_induct)
  case Nil
  then show ?case by (simp add: feed_def)
next
  case (snoc m ms)
  then have "feed ms cs = cs\<lparr> yamlBuffer := Some (join ''\<newline>'' (b # ms)) \<rparr>" by simp
  moreover have "join ''\<newline>'' (b # ms) \<noteq> []" using snoc.prems(3) by (rule join_nonempty)
  moreover have "\<not> includes_str m ''```''" "\<not> isMovingOn m" "\<not> includes_str m ''```yaml''"
    using snoc.prems(1) by (simp_all add: no_fence_no_tag)
  moreover have "join ''\<newline>'' ((b # ms) @ [m]) = join ''\<newline>'' (b # ms) @ ''\<newline>'' @ m"
    by (rule join_snoc) simp
  ultimately show ?case
    by (simp add: feed_def trackYamlPrompt_def Let_def)
qed

text \<open>
  C3, as claimed, fails: a complete fenced specification cut inside the key
  \<open>project_name:\<close> and fed as two fragments is extracted as one fragment, and not
  extracted from the buffer, which puts a newline between the fragments.
\<close>

theorem split_inside_key_loses_specification:
  "''```yaml\<newline>project_na'' @ ''me: a\<newline>project_description: d\<newline>users: u\<newline>goal: g\<newline>features: f\<newline>tech_stack: t\<newline>ui_style: s\<newline>```''
     = ''```yaml\<newline>'' @ exampleYaml @ ''\<newline>```''
   \<and> extractYamlFromText (''```yaml\<newline>'' @ exampleYaml @ ''\<newline>```'') = Some exampleYaml
   \<and> yamlBuffer (feed [''```yaml\<newline>project_na''] initialConversation)
       = Some ''```yaml\<newline>project_na''
   \<and> lastYamlPrompt (feed [''```yaml\<newline>project_na'',
          ''me: a\<newline>project_description: d\<newline>users: u\<newline>goal: g\<newline>features: f\<newline>tech_stack: t\<newline>ui_style: s\<newline>```'']
        initialConversation) = None
   \<and> phase (feed [''```yaml\<newline>project_na'',
          ''me: a\<newline>project_description: d\<newline>users: u\<newline>goal: g\<newline>features: f\<newline>tech_stack: t\<newline>ui_style: s\<newline>```'']
        initialConversation) = ideation"
  unfolding exampleYaml_def initialConversation_def feed_def by code_simp

text \<open>
  C3, amended. Fed a fragment with the opening marker, then fragments without fence and
  without a phrase of moving on, then a fragment with a fence, the Stream Buffer
  reconstructs the fragments joined by newlines, and the state after the last fragment is
  the one the result of the Extraction Engine on this joined text gives, with the buffer
  cleared. The reconstruction is the single-fragment text exactly when the text was cut at
  newlines, which the fragments do not contain.
\<close>

theorem buffer_joins_fragments_with_newline:
  "includes_str f1 ''```yaml''
   \<and> list_all (\<lambda>m. \<not> includes_str m ''```'' \<and> \<not> isMovingOn m) ms
   \<and> \<not> includes_str f2 ''```yaml'' \<and> includes_str f2 ''```'' \<longrightarrow>
     yamlBuffer (feed (f1 # ms) cs) = Some (join ''\<newline>'' (f1 # ms))
     \<and> feed (f1 # ms @ [f2]) cs =
         (acceptExtraction (extractYamlFromText (join ''\<newline>'' (f1 # ms @ [f2]))) cs)
           \<lparr> yamlBuffer := None \<rparr>"
proof
  assume a: "includes_str f1 ''```yaml''
   \<and> list_all (\<lambda>m. \<not> includes_str m ''```'' \<and> \<not> isMovingOn m) ms
   \<and> \<not> includes_str f2 ''```yaml'' \<and> includes_str f2 ''```''"
  then have ne: "f1 \<noteq> []" by (simp add: tag_nonempty)
  define cs1 where "cs1 = trackYamlPrompt f1 cs"
  have cs1: "cs1 = cs\<lparr> yamlBuffer := Some f1 \<rparr>"
    using a by (simp add: cs1_def trackYamlPrompt_def)
  have "feed ms cs1 = cs1\<lparr> yamlBuffer := Some (join ''\<newline>'' (f1 # ms)) \<rparr>"
    using a ne by (intro feed_accumulates) (simp_all add: cs1)
  then have mid: "feed (f1 # ms) cs = cs\<lparr> yamlBuffer := Some (join ''\<newline>'' (f1 # ms)) \<rparr>"
    by (simp add: feed_def cs1_def [symmetric] cs1)
  have j: "join ''\<newline>'' (f1 # ms @ [f2]) = join ''\<newline>'' (f1 # ms) @ ''\<newline>'' @ f2"
    using join_snoc [of "f1 # ms" "''\<newline>''" f2] by simp
  have "feed (f1 # ms @ [f2]) cs = trackYamlPrompt f2 (feed (f1 # ms) cs)"
    by (simp add: feed_def)
  also have "\<dots> = (acceptExtraction (extractYamlFromText (join ''\<newline>'' (f1 # ms @ [f2]))) cs)
           \<lparr> yamlBuffer := None \<rparr>"
    using a join_nonempty [OF ne, of "''\<newline>''" ms]
    by (simp add: mid j trackYamlPrompt_def Let_def acceptExtraction_def)
  finally show "yamlBuffer (feed (f1 # ms) cs) = Some (join ''\<newline>'' (f1 # ms))
     \<and> feed (f1 # ms @ [f2]) cs =
         (acceptExtraction (extractYamlFromText (join ''\<newline>'' (f1 # ms @ [f2]))) cs)
           \<lparr> yamlBuffer := None \<rparr>"
    using mid by simp
qed

theorem buffer_joins_fragments_with_newline_witness:
  "includes_str (''```yaml\<newline>project_name: a\<newline>project_description: d'') ''```yaml''
   \<and> list_all (\<lambda>m. \<not> includes_str m ''```'' \<and> \<not> isMovingOn m) [''users: u\<newline>goal: g'']
   \<and> \<not> includes_str ''features: f\<newline>tech_stack: t\<newline>ui_style: s\<newline>```'' ''```yaml''
   \<and> includes_str ''features: f\<newline>tech_stack: t\<newline>ui_style: s\<newline>```'' ''```''
   \<and> lastYamlPrompt (feed [''```yaml\<newline>project_name: a\<newline>project_description: d'',
          ''users: u\<newline>goal: g'',
          ''features: f\<newline>tech_stack: t\<newline>ui_style: s\<newline>```''] initialConversation)
       = Some exampleYaml
   \<and> phase (feed [''```yaml\<newline>project_name: a\<newline>project_description: d'',
          ''users: u\<newline>goal: g'',
          ''features: f\<newline>tech_stack: t\<newline>ui_style: s\<newline>```''] initialConversation)
       = prompt_review"
proof -
  have h: "includes_str (''```yaml\<newline>project_name: a\<newline>project_description: d'') ''```yaml''
   \<and> list_all (\<lambda>m. \<not> includes_str m ''```'' \<and> \<not> isMovingOn m) [''users: u\<newline>goal: g'']
   \<and> \<not> includes_str ''features: f\<newline>tech_stack: t\<newline>ui_style: s\<newline>```'' ''```yaml''
   \<and> includes_str ''features: f\<newline>tech_stack: t\<newline>ui_style: s\<newline>```'' ''```''"
    by code_simp
  have e: "extractYamlFromText (join ''\<newline>''
         (''```yaml\<newline>project_name: a\<newline>project_description: d''
          # [''users: u\<newline>goal: g'']
          @ [''features: f\<newline>tech_stack: t\<newline>ui_style: s\<newline>```'']))
       = Some exampleYaml"
    unfolding exampleYaml_def by code_simp
  have n: "exampleYaml \<noteq> []" by (simp add: exampleYaml_def)
  from buffer_joins_fragments_with_newline
         [where ?f1.0 = "''```yaml\<newline>project_name: a\<newline>project_description: d''"
            and ms = "[''users: u\<newline>goal: g'']"
            and ?f2.0 = "''features: f\<newline>tech_stack: t\<newline>ui_style: s\<newline>```''"
            and cs = initialConversation] h
  have "feed (''```yaml\<newline>project_name: a\<newline>project_description: d''
          # [''users: u\<newline>goal: g'']
          @ [''features: f\<newline>tech_stack: t\<newline>ui_style: s\<newline>```'']) initialConversation
      = (acceptExtraction (Some exampleYaml) initialConversation)\<lparr> yamlBuffer := None \<rparr>"
    unfolding e by blast
  then show ?thesis
    using h n by (simp add: acceptExtraction_def)
qed

section \<open>Approval and the phase\<close>

lemma trackYamlPrompt_phase:
  "phase (trackYamlPrompt c cs) = phase cs \<or> phase (trackYamlPrompt c cs) = prompt_review"
  by (auto simp: trackYamlPrompt_by_candidate acceptExtraction_def split: option.splits)

lemma forwardConversationText_frame:
  "conversationState (forwardConversationText m sv) = conversationState sv"
  "codegen (forwardConversationText m sv) = codegen sv"
  by (simp_all add: forwardConversationText_def)

lemma handleApproval_not_user:
  "role m \<noteq> ''user'' \<Longrightarrow> handleApproval m sid run sv = sv"
  by (simp add: handleApproval_def)

lemma handleApproval_no_specification:
  assumes "role m = ''user''" "detectYamlApproval (content m)"
    "\<not> truthy (lastYamlPrompt (conversationState sv))"
  shows "handleApproval m sid run sv =
           (if phase (conversationState sv) = prompt_review \<or> phase (conversationState sv) = ideation
            then sv\<lparr> browserWs := sendIfOpen (browserWs sv) correctiveMessage \<rparr> else sv)"
  using assms by (simp add: handleApproval_def)

lemma handleApproval_conversation:
  "conversationState (handleApproval m sid run sv) = conversationState sv
   \<or> conversationState (handleApproval m sid run sv)
        = (conversationState sv)\<lparr> phase := ideation, lastYamlPrompt := None, sessionId := None \<rparr>
   \<or> (role m = ''user'' \<and> phase (conversationState sv) = prompt_review
       \<and> truthy (lastYamlPrompt (conversationState sv))
       \<and> conversationState (handleApproval m sid run sv)
            = (conversationState sv)\<lparr> phase := code_generation, sessionId := Some sid \<rparr>)"
proof (cases "role m = ''user'' \<and> phase (conversationState sv) = prompt_review
         \<and> truthy (lastYamlPrompt (conversationState sv))
         \<and> detectYamlApproval (content m)")
  case False
  then have "conversationState (handleApproval m sid run sv) = conversationState sv"
    by (auto simp: handleApproval_def)
  then show ?thesis by simp
next
  case True
  then obtain yaml where y: "lastYamlPrompt (conversationState sv) = Some yaml"
    by (cases "lastYamlPrompt (conversationState sv)") auto
  obtain result ws' w' where r: "startCodeGeneration yaml sid
      (browserWs (beginGeneration sid sv)) run (codegen (beginGeneration sid sv)) = (result, ws', w')"
    by (cases "startCodeGeneration yaml sid
      (browserWs (beginGeneration sid sv)) run (codegen (beginGeneration sid sv))") auto
  have b: "conversationState (beginGeneration sid sv)
      = (conversationState sv)\<lparr> phase := code_generation, sessionId := Some sid \<rparr>"
    by (simp add: beginGeneration_def Let_def)
  show ?thesis
    using True y r b
    by (auto simp: handleApproval_def Let_def resetToIdeation_def
             split: sum.splits codegenResult.splits)
qed

text \<open>
  In every state the handler reaches from a new connection, a conversation without a
  specification is in the phase \<open>ideation\<close>.
\<close>

lemma trackYamlPrompt_specificationBound:
  "specificationBound cs \<Longrightarrow> specificationBound (trackYamlPrompt c cs)"
  by (auto simp: specificationBound_def trackYamlPrompt_by_candidate acceptExtraction_def
           split: option.splits)

lemma onConversationText_specificationBound:
  assumes "specificationBound (conversationState sv)"
  shows "specificationBound (conversationState (onConversationText m sid run sv))"
proof -
  define sv2 where "sv2 = (let sv1 = forwardConversationText m sv
       in if role m = ''assistant''
          then sv1\<lparr> conversationState := trackYamlPrompt (content m) (conversationState sv1) \<rparr>
          else sv1)"
  have on: "onConversationText m sid run sv = handleApproval m sid run sv2"
    by (simp add: onConversationText_def sv2_def Let_def)
  have "specificationBound (conversationState sv2)"
    using assms
    by (simp add: sv2_def Let_def forwardConversationText_frame trackYamlPrompt_specificationBound)
  with handleApproval_conversation [of m sid run sv2]
  show ?thesis unfolding on by (auto simp: specificationBound_def)
qed

lemma initialConversation_specificationBound: "specificationBound initialConversation"
  by (simp add: specificationBound_def initialConversation_def)

text \<open>
  C2, as claimed, fails: at an approval with no specification bound, no corrective message
  goes to the client when the connection of the client is not open (here it is closing),
  nor when the phase is neither \<open>ideation\<close> nor \<open>prompt_review\<close> (a state of the type that the
  handler itself does not reach, by the lemma above).
\<close>

theorem approval_without_specification_no_corrective_message:
  "browserWs (onConversationText \<lparr> role = ''user'', content = ''yes'' \<rparr> ''s1'' previewRun
       \<lparr> conversationState = initialConversation,
         browserWs = Some \<lparr> readyState = CLOSING, sent = [] \<rparr>,
         codegen = initialState \<rparr>)
     = Some \<lparr> readyState = CLOSING, sent = [] \<rparr>
   \<and> browserWs (onConversationText \<lparr> role = ''user'', content = ''yes'' \<rparr> ''s1'' previewRun
       \<lparr> conversationState = initialConversation\<lparr> phase := code_generation \<rparr>,
         browserWs = Some \<lparr> readyState = OPEN, sent = [] \<rparr>,
         codegen = initialState \<rparr>)
     = Some \<lparr> readyState = OPEN, sent = [TextMessage ''user'' ''yes''] \<rparr>"
proof -
  have d: "detectYamlApproval ''yes''" by code_simp
  show ?thesis
    using d
    by (simp add: onConversationText_def forwardConversationText_def handleApproval_def
          sendIfOpen_def initialConversation_def Let_def)
qed

text \<open>
  C2, amended. A user message that is an approval, while no specification is bound, leaves
  the conversation state (the phase with it) and the state of the generation module
  unchanged, so no generation session is started; when the connection of the client is
  open and the phase is \<open>ideation\<close> or \<open>prompt_review\<close>, the corrective message is sent to the
  client behind the user's text. The phase becomes \<open>code_generation\<close> only on a user
  message with a specification bound, and then the session identifier that
  \<open>generateSessionId\<close> returned for this message is stored in the conversation state.
\<close>

theorem approval_without_specification:
  "(role m = ''user'' \<and> detectYamlApproval (content m)
      \<and> \<not> truthy (lastYamlPrompt (conversationState sv)) \<longrightarrow>
        conversationState (onConversationText m sid run sv) = conversationState sv
        \<and> codegen (onConversationText m sid run sv) = codegen sv
        \<and> (browserWs sv = Some ws \<and> readyState ws = OPEN
            \<and> (phase (conversationState sv) = ideation
               \<or> phase (conversationState sv) = prompt_review) \<longrightarrow>
             browserWs (onConversationText m sid run sv)
               = Some (ws\<lparr> sent := sent ws @ [TextMessage ''user'' (content m),
                                               correctiveMessage] \<rparr>)))
   \<and> (phase (conversationState (onConversationText m sid run sv)) = code_generation
      \<and> phase (conversationState sv) \<noteq> code_generation \<longrightarrow>
        role m = ''user'' \<and> truthy (lastYamlPrompt (conversationState sv))
        \<and> lastYamlPrompt (conversationState (onConversationText m sid run sv))
            = lastYamlPrompt (conversationState sv)
        \<and> sessionId (conversationState (onConversationText m sid run sv)) = Some sid)"
proof -
  have 1: "conversationState (onConversationText m sid run sv) = conversationState sv
        \<and> codegen (onConversationText m sid run sv) = codegen sv
        \<and> (browserWs sv = Some ws \<and> readyState ws = OPEN
            \<and> (phase (conversationState sv) = ideation
               \<or> phase (conversationState sv) = prompt_review) \<longrightarrow>
             browserWs (onConversationText m sid run sv)
               = Some (ws\<lparr> sent := sent ws @ [TextMessage ''user'' (content m),
                                               correctiveMessage] \<rparr>))"
    if a: "role m = ''user'' \<and> detectYamlApproval (content m)
      \<and> \<not> truthy (lastYamlPrompt (conversationState sv))"
  proof -
    from a have u: "role m \<noteq> ''assistant''" by auto
    define sv1 where "sv1 = forwardConversationText m sv"
    have sv1: "sv1 = sv\<lparr> browserWs := sendIfOpen (browserWs sv) (TextMessage ''user'' (content m)) \<rparr>"
      using a u by (simp add: sv1_def forwardConversationText_def)
    have on: "onConversationText m sid run sv = handleApproval m sid run sv1"
      using u by (simp add: onConversationText_def Let_def sv1_def)
    have h: "handleApproval m sid run sv1 =
           (if phase (conversationState sv1) = prompt_review \<or> phase (conversationState sv1) = ideation
            then sv1\<lparr> browserWs := sendIfOpen (browserWs sv1) correctiveMessage \<rparr> else sv1)"
      using a by (intro handleApproval_no_specification) (simp_all add: sv1)
    show ?thesis
      unfolding on h by (auto simp: sv1 sendIfOpen_def)
  qed
  have 2: "role m = ''user'' \<and> truthy (lastYamlPrompt (conversationState sv))
        \<and> lastYamlPrompt (conversationState (onConversationText m sid run sv))
            = lastYamlPrompt (conversationState sv)
        \<and> sessionId (conversationState (onConversationText m sid run sv)) = Some sid"
    if b: "phase (conversationState (onConversationText m sid run sv)) = code_generation
      \<and> phase (conversationState sv) \<noteq> code_generation"
  proof (cases "role m = ''assistant''")
    case True
    then have "onConversationText m sid run sv
        = (forwardConversationText m sv)\<lparr> conversationState :=
             trackYamlPrompt (content m) (conversationState sv) \<rparr>"
      by (simp add: onConversationText_def Let_def handleApproval_not_user
            forwardConversationText_frame)
    then have "phase (conversationState (onConversationText m sid run sv))
        = phase (trackYamlPrompt (content m) (conversationState sv))"
      by simp
    with b trackYamlPrompt_phase [of "content m" "conversationState sv"] show ?thesis by auto
  next
    case False
    define sv1 where "sv1 = forwardConversationText m sv"
    have on: "onConversationText m sid run sv = handleApproval m sid run sv1"
      using False by (simp add: onConversationText_def Let_def sv1_def)
    have cs1: "conversationState sv1 = conversationState sv"
      by (simp add: sv1_def forwardConversationText_frame)
    from handleApproval_conversation [of m sid run sv1] b
    show ?thesis unfolding on cs1 by auto
  qed
  from 1 2 show ?thesis by blast
qed

theorem approval_without_specification_witness:
  "detectYamlApproval ''yes''
   \<and> \<not> truthy (lastYamlPrompt initialConversation)
   \<and> conversationState (onConversationText \<lparr> role = ''user'', content = ''yes'' \<rparr> ''s1'' previewRun
        \<lparr> conversationState = initialConversation,
          browserWs = Some \<lparr> readyState = OPEN, sent = [] \<rparr>,
          codegen = initialState \<rparr>) = initialConversation
   \<and> browserWs (onConversationText \<lparr> role = ''user'', content = ''yes'' \<rparr> ''s1'' previewRun
        \<lparr> conversationState = initialConversation,
          browserWs = Some \<lparr> readyState = OPEN, sent = [] \<rparr>,
          codegen = initialState \<rparr>)
       = Some \<lparr> readyState = OPEN, sent = [TextMessage ''user'' ''yes'', correctiveMessage] \<rparr>
   \<and> phase (conversationState (onConversationText
        \<lparr> role = ''user'', content = ''That looks great, let's build it!'' \<rparr> ''s1'' previewRun
        \<lparr> conversationState = initialConversation
            \<lparr> phase := prompt_review, lastYamlPrompt := Some exampleYaml \<rparr>,
          browserWs = Some \<lparr> readyState = OPEN, sent = [] \<rparr>,
          codegen = initialState \<rparr>)) = code_generation
   \<and> sessionId (conversationState (onConversationText
        \<lparr> role = ''user'', content = ''That looks great, let's build it!'' \<rparr> ''s1'' previewRun
        \<lparr> conversationState = initialConversation
            \<lparr> phase := prompt_review, lastYamlPrompt := Some exampleYaml \<rparr>,
          browserWs = Some \<lparr> readyState = OPEN, sent = [] \<rparr>,
          codegen = initialState \<rparr>)) = Some ''s1''"
proof -
  have d: "detectYamlApproval ''yes''" by code_simp
  have d2: "detectYamlApproval ''That looks great, let's build it!''" by code_simp
  have n: "\<not> truthy (lastYamlPrompt initialConversation)"
    by (simp add: initialConversation_def)
  have ne: "exampleYaml \<noteq> []" by (simp add: exampleYaml_def)
  have p: "phase (conversationState (onConversationText
        \<lparr> role = ''user'', content = ''That looks great, let's build it!'' \<rparr> ''s1'' previewRun
        \<lparr> conversationState = initialConversation
            \<lparr> phase := prompt_review, lastYamlPrompt := Some exampleYaml \<rparr>,
          browserWs = Some \<lparr> readyState = OPEN, sent = [] \<rparr>,
          codegen = initialState \<rparr>)) = code_generation"
    using d2 ne exampleYaml_valid
    by (simp add: onConversationText_def forwardConversationText_def handleApproval_def
          beginGeneration_def sendIfOpen_def initialConversation_def Let_def
          startCodeGeneration_def registerSession_def tryBlock_def setStatus_def
          previewRun_def initialState_def emitEvent_def)
  note t1 = approval_without_specification
      [where m = "\<lparr> role = ''user'', content = ''yes'' \<rparr>" and sid = "''s1''"
         and run = previewRun and ws = "\<lparr> readyState = OPEN, sent = [] \<rparr>"
         and sv = "\<lparr> conversationState = initialConversation,
                     browserWs = Some \<lparr> readyState = OPEN, sent = [] \<rparr>,
                     codegen = initialState \<rparr>"]
  note t2 = approval_without_specification
      [where m = "\<lparr> role = ''user'', content = ''That looks great, let's build it!'' \<rparr>"
         and sid = "''s1''" and run = previewRun
         and sv = "\<lparr> conversationState = initialConversation
                       \<lparr> phase := prompt_review, lastYamlPrompt := Some exampleYaml \<rparr>,
                     browserWs = Some \<lparr> readyState = OPEN, sent = [] \<rparr>,
                     codegen = initialState \<rparr>"]
  have i: "phase initialConversation = ideation" by (simp add: initialConversation_def)
  from t1 d n i have a: "conversationState (onConversationText \<lparr> role = ''user'', content = ''yes'' \<rparr> ''s1'' previewRun
        \<lparr> conversationState = initialConversation,
          browserWs = Some \<lparr> readyState = OPEN, sent = [] \<rparr>,
          codegen = initialState \<rparr>) = initialConversation
   \<and> browserWs (onConversationText \<lparr> role = ''user'', content = ''yes'' \<rparr> ''s1'' previewRun
        \<lparr> conversationState = initialConversation,
          browserWs = Some \<lparr> readyState = OPEN, sent = [] \<rparr>,
          codegen = initialState \<rparr>)
       = Some \<lparr> readyState = OPEN, sent = [TextMessage ''user'' ''yes'', correctiveMessage] \<rparr>"
    by simp
  from t2 p have b: "sessionId (conversationState (onConversationText
        \<lparr> role = ''user'', content = ''That looks great, let's build it!'' \<rparr> ''s1'' previewRun
        \<lparr> conversationState = initialConversation
            \<lparr> phase := prompt_review, lastYamlPrompt := Some exampleYaml \<rparr>,
          browserWs = Some \<lparr> readyState = OPEN, sent = [] \<rparr>,
          codegen = initialState \<rparr>)) = Some ''s1''"
    by simp
  from d n a p b show ?thesis by blast
qed

end
